theory Spec2Isabelle
  imports Complex_Main
begin

section \<open>JavaScript numbers\<close>

text \<open>
  The engine computes with JavaScript numbers. A finite double is a rational number, so
  a number is modelled as a rational, one of the two infinities, or NaN. The arithmetic
  below follows IEEE 754 on these four kinds (what \<open>x / 0\<close>, \<open>0 * Infinity\<close>,
  \<open>Infinity - Infinity\<close> and comparisons with NaN give). Two things are idealised and
  stated here once: finite results are exact (no rounding to 53 bits, no overflow to
  Infinity), and negative zero is identified with zero.

  Because of the first idealisation, an equation between two different expressions of
  finite numbers that holds here need not hold in double arithmetic
  (\<open>(a - b) + b = a\<close> does not). The theorems about the engine below are therefore
  stated on the expressions that the code evaluates, operation by operation, and
  their concrete instances use values that double arithmetic computes exactly; what
  they take from the arithmetic of finite numbers is the order of the numbers, which
  is the same in both.
\<close>

datatype jsnum = Fin rat | PosInf | NegInf | NaN

fun jneg :: "jsnum \<Rightarrow> jsnum" where
  "jneg (Fin a) = Fin (- a)"
| "jneg PosInf = NegInf"
| "jneg NegInf = PosInf"
| "jneg NaN = NaN"

fun jadd :: "jsnum \<Rightarrow> jsnum \<Rightarrow> jsnum" where
  "jadd NaN _ = NaN"
| "jadd _ NaN = NaN"
| "jadd (Fin a) (Fin b) = Fin (a + b)"
| "jadd PosInf NegInf = NaN"
| "jadd NegInf PosInf = NaN"
| "jadd PosInf _ = PosInf"
| "jadd _ PosInf = PosInf"
| "jadd NegInf _ = NegInf"
| "jadd _ NegInf = NegInf"

definition jsub :: "jsnum \<Rightarrow> jsnum \<Rightarrow> jsnum" where
  "jsub a b = jadd a (jneg b)"

text \<open>The sign of a number that is not NaN, as \<open>-1\<close>, \<open>0\<close> or \<open>1\<close>.\<close>

fun jsign :: "jsnum \<Rightarrow> rat" where
  "jsign (Fin a) = sgn a"
| "jsign PosInf = 1"
| "jsign NegInf = - 1"
| "jsign NaN = 0"

definition inf_of_sign :: "rat \<Rightarrow> jsnum" where
  "inf_of_sign s = (if 0 < s then PosInf else if s < 0 then NegInf else NaN)"

fun jmul :: "jsnum \<Rightarrow> jsnum \<Rightarrow> jsnum" where
  "jmul NaN _ = NaN"
| "jmul _ NaN = NaN"
| "jmul (Fin a) (Fin b) = Fin (a * b)"
| "jmul a b = inf_of_sign (jsign a * jsign b)"

fun jdiv :: "jsnum \<Rightarrow> jsnum \<Rightarrow> jsnum" where
  "jdiv NaN _ = NaN"
| "jdiv _ NaN = NaN"
| "jdiv (Fin a) (Fin b) = (if b = 0 then inf_of_sign (sgn a) else Fin (a / b))"
| "jdiv (Fin a) _ = Fin 0"
| "jdiv a (Fin b) = inf_of_sign (jsign a * (if b < 0 then - 1 else 1))"
| "jdiv _ _ = NaN"

text \<open>\<open>a < b\<close> and \<open>a <= b\<close> of JavaScript: false as soon as one side is NaN.\<close>

fun jlt :: "jsnum \<Rightarrow> jsnum \<Rightarrow> bool" where
  "jlt NaN _ = False"
| "jlt _ NaN = False"
| "jlt (Fin a) (Fin b) = (a < b)"
| "jlt PosInf _ = False"
| "jlt _ PosInf = True"
| "jlt _ NegInf = False"
| "jlt NegInf _ = True"

fun jle :: "jsnum \<Rightarrow> jsnum \<Rightarrow> bool" where
  "jle NaN _ = False"
| "jle _ NaN = False"
| "jle a b = (a = b \<or> jlt a b)"

text \<open>\<open>Math.min\<close> and \<open>Math.max\<close> of two arguments: NaN if either is NaN.\<close>

fun Math_min :: "jsnum \<Rightarrow> jsnum \<Rightarrow> jsnum" where
  "Math_min NaN _ = NaN"
| "Math_min _ NaN = NaN"
| "Math_min a b = (if jlt b a then b else a)"

fun Math_max :: "jsnum \<Rightarrow> jsnum \<Rightarrow> jsnum" where
  "Math_max NaN _ = NaN"
| "Math_max _ NaN = NaN"
| "Math_max a b = (if jlt a b then b else a)"

text \<open>Truthiness of a number: \<open>0\<close> and NaN are falsy.\<close>

fun truthy :: "jsnum \<Rightarrow> bool" where
  "truthy (Fin a) = (a \<noteq> 0)"
| "truthy NaN = False"
| "truthy _ = True"

text \<open>
  An optional numeric field read as a number: \<open>undefined\<close> in arithmetic is NaN.
  \<open>v || d\<close> on an optional number gives \<open>d\<close> when \<open>v\<close> is undefined, \<open>0\<close> or NaN.
\<close>

fun toNumber :: "jsnum option \<Rightarrow> jsnum" where
  "toNumber None = NaN"
| "toNumber (Some v) = v"

fun orElse :: "jsnum option \<Rightarrow> jsnum \<Rightarrow> jsnum" where
  "orElse None d = d"
| "orElse (Some v) d = (if truthy v then v else d)"

fun isTruthy :: "jsnum option \<Rightarrow> bool" where
  "isTruthy None = False"
| "isTruthy (Some v) = truthy v"

fun finite_num :: "jsnum \<Rightarrow> bool" where
  "finite_num (Fin _) = True"
| "finite_num _ = False"

section \<open>Data model\<close>

text \<open>
  Modelled from the spec: the type declarations of \<open>../types\<close> (\<open>SerializableLayer\<close>,
  \<open>LayerOverride\<close>, \<open>LayoutStrategy\<close>, \<open>FeedbackStrategy\<close>, \<open>MappingContext\<close>,
  \<open>ContainerDefinition\<close>, \<open>TransformedLayer\<close>, \<open>TransformedPayload\<close>) are not among
  the sources. The fields are the ones section 3 of the specification lists, with the
  names and the optionality the two components use them with. Opaque pass-through
  values (\<open>sourceReference\<close>, \<open>triangulation\<close>, \<open>previewUrl\<close>) are strings.
  Where two types share a field name, the fields of the layer are prefixed \<open>l_\<close>,
  those of the transformed layer \<open>t_\<close>, those of the payload \<open>p_\<close>; the strategy's
  \<open>method\<close> is \<open>s_method\<close>, the feedback's \<open>overrides\<close> is \<open>fb_overrides\<close>, the
  target container's \<open>bounds\<close> is \<open>c_bounds\<close>. An enumeration (\<open>method\<close>,
  \<open>layoutMode\<close>, \<open>type\<close>) is the string the code compares it with, so that values
  the code does not know are inputs too.
\<close>

record rect =
  x :: jsnum
  y :: jsnum
  w :: jsnum
  h :: jsnum

datatype layer = Layer
  (l_id: string)
  (l_type: string)
  (l_coords: rect)
  (l_children: "layer list option")
  (l_layoutRole: "string option")
  (l_linkedAnchorId: "string option")
  (l_citedRule: "string option")

record layerOverride =
  layerId :: string
  xOffset :: "jsnum option"
  yOffset :: "jsnum option"
  individualScale :: "jsnum option"
  rotation :: "jsnum option"
  layoutRole :: "string option"
  linkedAnchorId :: "string option"
  citedRule :: "string option"

record physicsRules =
  preventOverlap :: "bool option"

record layoutStrategy =
  s_method :: string
  suggestedScale :: "jsnum option"
  layoutMode :: "string option"
  overrides :: "layerOverride list option"
  replaceLayerId :: "string option"
  generativePrompt :: "string option"
  physicsRules :: "physicsRules option"
  isExplicitIntent :: "bool option"
  sourceReference :: "string option"
  triangulation :: "string option"
  timestamp :: "jsnum option"

record feedbackStrategy =
  fb_overrides :: "layerOverride list option"
  isCommitted :: bool

record transform =
  scaleX :: jsnum
  scaleY :: jsnum
  offsetX :: jsnum
  offsetY :: jsnum
  t_rotation :: jsnum

datatype transformedLayer = TransformedLayer
  (t_id: string)
  (t_type: string)
  (t_coords: rect)
  (t_transform: transform)
  (t_children: "transformedLayer list option")
  (t_layoutRole: "string option")
  (t_linkedAnchorId: "string option")
  (t_citedRule: "string option")
  (t_generativePrompt: "string option")

record containerContext =
  containerName :: string
  bounds :: rect

record mappingContext =
  container :: containerContext
  layers :: "layer list"
  aiStrategy :: "layoutStrategy option"
  previewUrl :: "string option"

record containerDefinition =
  name :: string
  c_bounds :: rect

record metrics =
  source :: "jsnum \<times> jsnum"
  target :: "jsnum \<times> jsnum"

record transformedPayload =
  status :: string
  sourceNodeId :: string
  p_sourceContainer :: string
  p_targetContainer :: string
  p_layers :: "transformedLayer list"
  scaleFactor :: jsnum
  p_metrics :: metrics
  p_targetBounds :: rect
  isConfirmed :: "bool option"
  requiresGeneration :: bool
  p_previewUrl :: "string option"
  p_sourceReference :: "string option"
  generationId :: jsnum
  p_triangulation :: "string option"

section \<open>Override resolution\<close>

text \<open>\<open>Array.prototype.find\<close>: the first element that satisfies the predicate.\<close>

fun find_override :: "string \<Rightarrow> layerOverride list \<Rightarrow> layerOverride option" where
  "find_override lid [] = None"
| "find_override lid (ov # ovs) = (if layerId ov = lid then Some ov else find_override lid ovs)"

text \<open>
  \<open>getOverride\<close> of the second component (\<open>RemapperInstanceRow\<close>): the feedback's list
  first, then the strategy's, per layer.
\<close>

definition getOverride ::
  "string \<Rightarrow> feedbackStrategy option \<Rightarrow> layoutStrategy option \<Rightarrow> layerOverride option" where
  "getOverride lid feedback strategy =
     (let manual =
        (case feedback of
           None \<Rightarrow> None
         | Some f \<Rightarrow> (case fb_overrides f of None \<Rightarrow> None | Some os \<Rightarrow> find_override lid os))
      in case manual of
           Some m \<Rightarrow> Some m
         | None \<Rightarrow>
             (case strategy of
                None \<Rightarrow> None
              | Some s \<Rightarrow> (case overrides s of None \<Rightarrow> None | Some os \<Rightarrow> find_override lid os)))"

text \<open>
  \<open>RemapperInstance\<close> (\<open>RemapperNode.tsx\<close>) first picks one list,
  \<open>feedback?.overrides || aiStrategy?.overrides || []\<close> (an array, also an empty one,
  is truthy), and its \<open>getOverride\<close> searches that list only.
\<close>

definition RemapperInstance_overrides ::
  "feedbackStrategy option \<Rightarrow> layoutStrategy option \<Rightarrow> layerOverride list" where
  "RemapperInstance_overrides feedback strategy =
     (case (case feedback of None \<Rightarrow> None | Some f \<Rightarrow> fb_overrides f) of
        Some os \<Rightarrow> os
      | None \<Rightarrow>
          (case (case strategy of None \<Rightarrow> None | Some s \<Rightarrow> overrides s) of
             Some os \<Rightarrow> os
           | None \<Rightarrow> []))"

definition RemapperInstance_getOverride ::
  "layerOverride list \<Rightarrow> string \<Rightarrow> layerOverride option" where
  "RemapperInstance_getOverride ovs lid = find_override lid ovs"

section \<open>Geometry mapper of \<open>RemapperInstanceRow\<close> (second component)\<close>

text \<open>\<open>a?.f\<close> on an optional record \<open>a\<close> with an optional field \<open>f\<close>.\<close>

definition opt_field :: "'a option \<Rightarrow> ('a \<Rightarrow> 'b option) \<Rightarrow> 'b option" where
  "opt_field a f = (case a of None \<Rightarrow> None | Some v \<Rightarrow> f v)"

text \<open>
  Base metrics: \<open>scaleX = tgtW / srcW\<close>, \<open>scaleY = tgtH / srcH\<close>, and
  \<open>baseScale = strategy?.suggestedScale ? strategy.suggestedScale : Math.max(scaleX, scaleY)\<close>.
\<close>

definition RemapperInstanceRow_baseScale :: "rect \<Rightarrow> rect \<Rightarrow> layoutStrategy option \<Rightarrow> jsnum" where
  "RemapperInstanceRow_baseScale sb tb strategy =
     (let sX = jdiv (w tb) (w sb);
          sY = jdiv (h tb) (h sb)
      in if isTruthy (opt_field strategy suggestedScale)
         then toNumber (opt_field strategy suggestedScale)
         else Math_max sX sY)"

text \<open>
  Steps 1 to 3 of \<open>transformLayer\<close>: the coordinates and the transform of one layer,
  from the source bounds \<open>sb\<close>, the target bounds \<open>tb\<close>, the base scale, the resolved
  override and the layer's own coordinates \<open>c\<close>.
\<close>

definition RemapperInstanceRow_geometry ::
  "rect \<Rightarrow> rect \<Rightarrow> jsnum \<Rightarrow> layerOverride option \<Rightarrow> rect \<Rightarrow> rect \<times> transform" where
  "RemapperInstanceRow_geometry sb tb baseScale override c =
     (let relX = jsub (x c) (x sb);
          relY = jsub (y c) (y sb);
          scaledW = jmul (w sb) baseScale;
          scaledH = jmul (h sb) baseScale;
          offX = jdiv (jsub (w tb) scaledW) (Fin 2);
          offY = jdiv (jsub (h tb) scaledH) (Fin 2);
          newX = jadd (jadd (jmul relX baseScale) offX) (x tb);
          newY = jadd (jadd (jmul relY baseScale) offY) (y tb);
          newW = jmul (w c) baseScale;
          newH = jmul (h c) baseScale
      in case override of
           None \<Rightarrow>
             (\<lparr>x = newX, y = newY, w = newW, h = newH\<rparr>,
              \<lparr>scaleX = baseScale, scaleY = baseScale, offsetX = newX, offsetY = newY,
               t_rotation = Fin 0\<rparr>)
         | Some ov \<Rightarrow>
             (let movedX = jadd newX (toNumber (xOffset ov));
                  movedY = jadd newY (toNumber (yOffset ov));
                  indScale = orElse (individualScale ov) (Fin 1);
                  cx = jadd movedX (jdiv newW (Fin 2));
                  cy = jadd movedY (jdiv newH (Fin 2));
                  finalW = jmul newW indScale;
                  finalH = jmul newH indScale;
                  finalX = jsub cx (jdiv finalW (Fin 2));
                  finalY = jsub cy (jdiv finalH (Fin 2))
              in (\<lparr>x = finalX, y = finalY, w = finalW, h = finalH\<rparr>,
                  \<lparr>scaleX = jmul baseScale indScale, scaleY = jmul baseScale indScale,
                   offsetX = finalX, offsetY = finalY,
                   t_rotation = orElse (rotation ov) (Fin 0)\<rparr>)))"

text \<open>
  Step 4: the result spreads the input layer (so \<open>layoutRole\<close>, \<open>linkedAnchorId\<close> and
  \<open>citedRule\<close> are the layer's own), replaces \<open>coords\<close>, \<open>transform\<close>, \<open>type\<close> and
  \<open>generativePrompt\<close>, and maps the children when the layer has any.
\<close>

fun RemapperInstanceRow_transformLayer ::
  "rect \<Rightarrow> rect \<Rightarrow> feedbackStrategy option \<Rightarrow> layoutStrategy option \<Rightarrow> layer \<Rightarrow> transformedLayer" where
  "RemapperInstanceRow_transformLayer sb tb feedback strategy (Layer lid ty c ch lr la cr) =
     (let override = getOverride lid feedback strategy;
          g = RemapperInstanceRow_geometry sb tb (RemapperInstanceRow_baseScale sb tb strategy) override c
      in TransformedLayer lid
           (if map_option s_method strategy = Some ''GENERATIVE''
               \<and> opt_field strategy replaceLayerId = Some lid
            then ''generative'' else ty)
           (fst g) (snd g)
           (map_option (map (RemapperInstanceRow_transformLayer sb tb feedback strategy)) ch)
           lr la cr
           (if opt_field strategy replaceLayerId = Some lid
            then opt_field strategy generativePrompt else None))"

section \<open>Geometry mapper of \<open>RemapperInstance\<close> (\<open>RemapperNode.tsx\<close>)\<close>

text \<open>
  Steps 1 and 2 of the callback of \<open>transformLayers\<close>: contain scale
  (\<open>Math.min\<close>), the layer centred in the target unless an override gives its
  position relative to the target origin.
\<close>

definition RemapperInstance_geometry ::
  "rect \<Rightarrow> rect \<Rightarrow> layoutStrategy option \<Rightarrow> layerOverride option \<Rightarrow> rect \<Rightarrow> rect \<times> transform" where
  "RemapperInstance_geometry sb tb strategy override c =
     (let scaleX_Global = jdiv (w tb) (w sb);
          scaleY_Global = jdiv (h tb) (h sb);
          uniformScale = Math_min scaleX_Global scaleY_Global;
          finalScale =
            (if isTruthy (opt_field override individualScale)
             then jmul uniformScale (toNumber (opt_field override individualScale))
             else if isTruthy (opt_field strategy suggestedScale)
             then jmul uniformScale (toNumber (opt_field strategy suggestedScale))
             else uniformScale);
          layerW = jmul (w c) finalScale;
          layerH = jmul (h c) finalScale;
          cx = jadd (x tb) (jdiv (w tb) (Fin 2));
          cy = jadd (y tb) (jdiv (h tb) (Fin 2));
          posX = (case override of
                    None \<Rightarrow> jsub cx (jdiv layerW (Fin 2))
                  | Some ov \<Rightarrow> jadd (x tb) (toNumber (xOffset ov)));
          posY = (case override of
                    None \<Rightarrow> jsub cy (jdiv layerH (Fin 2))
                  | Some ov \<Rightarrow> jadd (y tb) (toNumber (yOffset ov)))
      in (\<lparr>x = posX, y = posY, w = layerW, h = layerH\<rparr>,
          \<lparr>scaleX = finalScale, scaleY = finalScale, offsetX = Fin 0, offsetY = Fin 0,
           t_rotation = orElse (opt_field override rotation) (Fin 0)\<rparr>))"

section \<open>Flow layout of \<open>RemapperInstance\<close>: the grid solver\<close>

text \<open>
  The solver mutates the objects of \<open>transformed\<close> in place through the array
  \<open>gridCandidates\<close>, which holds references to some of them. A reference is modelled
  as the position of the object in \<open>transformed\<close>; an assignment to a field of the
  object is an update of the list at that position.
\<close>

definition set_coords_x :: "jsnum \<Rightarrow> transformedLayer \<Rightarrow> transformedLayer" where
  "set_coords_x v l =
     (case l of TransformedLayer i ty c tr ch lr la cr gp \<Rightarrow>
        TransformedLayer i ty (c\<lparr>x := v\<rparr>) tr ch lr la cr gp)"

definition set_coords_y :: "jsnum \<Rightarrow> transformedLayer \<Rightarrow> transformedLayer" where
  "set_coords_y v l =
     (case l of TransformedLayer i ty c tr ch lr la cr gp \<Rightarrow>
        TransformedLayer i ty (c\<lparr>y := v\<rparr>) tr ch lr la cr gp)"

text \<open>\<open>!s\<close> on an optional string: true for \<open>undefined\<close> and for the empty string.\<close>

fun falsy_str :: "string option \<Rightarrow> bool" where
  "falsy_str None = True"
| "falsy_str (Some s) = (s = [])"

definition isGridCandidate :: "layerOverride list \<Rightarrow> transformedLayer \<Rightarrow> bool" where
  "isGridCandidate ovs l =
     (case RemapperInstance_getOverride ovs (t_id l) of
        Some _ \<Rightarrow> False
      | None \<Rightarrow> falsy_str (t_layoutRole l) \<or> t_layoutRole l = Some ''flow'')"

definition gridCandidates :: "layerOverride list \<Rightarrow> transformedLayer list \<Rightarrow> nat list" where
  "gridCandidates ovs transformed =
     filter (\<lambda>i. isGridCandidate ovs (transformed ! i)) [0..<length transformed]"

text \<open>
  The two \<open>forEach\<close> loops: \<open>idx\<close> counts the candidates already placed,
  \<open>slotCX = targetBounds.x + margin + step * idx + step / 2\<close>.
\<close>

fun distributeH ::
  "rect \<Rightarrow> jsnum \<Rightarrow> jsnum \<Rightarrow> nat list \<Rightarrow> nat \<Rightarrow> transformedLayer list \<Rightarrow> transformedLayer list" where
  "distributeH tb margin step [] idx ls = ls"
| "distributeH tb margin step (i # cands) idx ls =
     (let l = ls ! i;
          slotCX = jadd (jadd (jadd (x tb) margin) (jmul step (Fin (of_nat idx)))) (jdiv step (Fin 2))
      in distributeH tb margin step cands (Suc idx)
           (ls[i := set_coords_x (jsub slotCX (jdiv (w (t_coords l)) (Fin 2))) l]))"

fun distributeV ::
  "rect \<Rightarrow> jsnum \<Rightarrow> jsnum \<Rightarrow> nat list \<Rightarrow> nat \<Rightarrow> transformedLayer list \<Rightarrow> transformedLayer list" where
  "distributeV tb margin step [] idx ls = ls"
| "distributeV tb margin step (i # cands) idx ls =
     (let l = ls ! i;
          slotCY = jadd (jadd (jadd (y tb) margin) (jmul step (Fin (of_nat idx)))) (jdiv step (Fin 2))
      in distributeV tb margin step cands (Suc idx)
           (ls[i := set_coords_y (jsub slotCY (jdiv (h (t_coords l)) (Fin 2))) l]))"

text \<open>
  Steps 3 and 4 of \<open>transformLayers\<close>, run only when \<open>depth === 0 && aiStrategy\<close>.
  The constant \<open>0.05\<close> is written as its decimal value \<open>5/100\<close>; the double that
  JavaScript reads it as is another rational, close to it, and the product with it is
  rounded. No statement below evaluates \<open>margin\<close> except on widths for which the
  double product is the exact value (\<open>400 * 0.05 = 20\<close>).
\<close>

definition RemapperInstance_physics ::
  "rect \<Rightarrow> layerOverride list \<Rightarrow> layoutStrategy option \<Rightarrow> nat \<Rightarrow> transformedLayer list
     \<Rightarrow> transformedLayer list" where
  "RemapperInstance_physics tb ovs strat depth transformed =
     (case strat of
        None \<Rightarrow> transformed
      | Some strategy \<Rightarrow>
          if depth \<noteq> 0 then transformed
          else
            (let cands = gridCandidates ovs transformed
             in if length cands > 0 then
                  if layoutMode strategy = Some ''DISTRIBUTE_HORIZONTAL''
                     \<or> layoutMode strategy = Some ''GRID'' then
                    (let totalW = w tb;
                         margin = jmul totalW (Fin (5 / 100));
                         availableW = jsub totalW (jmul margin (Fin 2));
                         step = jdiv availableW (Fin (of_nat (length cands)))
                     in distributeH tb margin step cands 0 transformed)
                  else if layoutMode strategy = Some ''DISTRIBUTE_VERTICAL'' then
                    (let totalH = h tb;
                         margin = jmul totalH (Fin (5 / 100));
                         availableH = jsub totalH (jmul margin (Fin 2));
                         step = jdiv availableH (Fin (of_nat (length cands)))
                     in distributeV tb margin step cands 0 transformed)
                  else transformed
                else transformed))"

text \<open>
  The callback of \<open>layers.map\<close> in \<open>transformLayers\<close>. The result spreads the layer
  and then overwrites \<open>layoutRole\<close>, \<open>linkedAnchorId\<close> and \<open>citedRule\<close> with the
  override's (\<open>override?.f\<close>), sets \<open>generativePrompt\<close> and \<open>type\<close>, and maps the
  children with \<open>transformLayers(layer.children, depth + 1)\<close>.
\<close>

fun RemapperInstance_mapLayer ::
  "rect \<Rightarrow> rect \<Rightarrow> layerOverride list \<Rightarrow> layoutStrategy option \<Rightarrow> nat \<Rightarrow> layer \<Rightarrow> transformedLayer" where
  "RemapperInstance_mapLayer sb tb ovs strat depth (Layer lid ty c ch lr la cr) =
     (let override = RemapperInstance_getOverride ovs lid;
          g = RemapperInstance_geometry sb tb strat override c
      in TransformedLayer lid
           (if opt_field strat replaceLayerId = Some lid then ''generative'' else ty)
           (fst g) (snd g)
           (map_option
              (\<lambda>cs. RemapperInstance_physics tb ovs strat (Suc depth)
                      (map (RemapperInstance_mapLayer sb tb ovs strat (Suc depth)) cs))
              ch)
           (opt_field override layoutRole)
           (opt_field override linkedAnchorId)
           (opt_field override citedRule)
           (if map_option s_method strat = Some ''GENERATIVE''
               \<or> map_option s_method strat = Some ''HYBRID''
            then opt_field strat generativePrompt else None))"

definition RemapperInstance_transformLayers ::
  "rect \<Rightarrow> rect \<Rightarrow> layerOverride list \<Rightarrow> layoutStrategy option \<Rightarrow> nat \<Rightarrow> layer list
     \<Rightarrow> transformedLayer list" where
  "RemapperInstance_transformLayers sb tb ovs strat depth ls =
     RemapperInstance_physics tb ovs strat depth
       (map (RemapperInstance_mapLayer sb tb ovs strat depth) ls)"

section \<open>Flow layout of \<open>RemapperInstanceRow\<close>: the collision solver\<close>

definition isFlowItem ::
  "feedbackStrategy option \<Rightarrow> layoutStrategy option \<Rightarrow> transformedLayer \<Rightarrow> bool" where
  "isFlowItem feedback strategy l =
     (let role = opt_field (getOverride (t_id l) feedback strategy) layoutRole
      in role = Some ''flow'' \<or> (falsy_str role \<and> t_type l \<noteq> ''group''))"

text \<open>
  \<open>flowItems.sort((a, b) => a.coords.x - b.coords.x)\<close>: a stable sort, here by
  insertion; an element moves behind another only when the comparator is positive
  (a NaN comparator counts as \<open>0\<close>). With a comparator that is not consistent (NaN or
  infinite coordinates) the order JavaScript gives is implementation-defined, and may
  differ from the order of this definition. The statements below that depend on the
  order of the flow items have finite coordinates, for which the stable sort is
  determined, or coordinates that are all NaN, for which every comparison counts as
  \<open>0\<close> and the stable sort keeps the order of the list.
\<close>

fun insert_by_x :: "transformedLayer list \<Rightarrow> nat \<Rightarrow> nat list \<Rightarrow> nat list" where
  "insert_by_x ls a [] = [a]"
| "insert_by_x ls a (b # bs) =
     (if jlt (Fin 0) (jsub (x (t_coords (ls ! a))) (x (t_coords (ls ! b))))
      then b # insert_by_x ls a bs else a # b # bs)"

definition sort_by_x :: "transformedLayer list \<Rightarrow> nat list \<Rightarrow> nat list" where
  "sort_by_x ls idxs = foldr (insert_by_x ls) idxs []"

definition flowItems ::
  "feedbackStrategy option \<Rightarrow> layoutStrategy option \<Rightarrow> transformedLayer list \<Rightarrow> nat list" where
  "flowItems feedback strategy ls =
     sort_by_x ls (filter (\<lambda>i. isFlowItem feedback strategy (ls ! i)) [0..<length ls])"

text \<open>\<open>curr.coords.x += diff; curr.transform.offsetX += diff\<close>.\<close>

definition shift_x :: "jsnum \<Rightarrow> transformedLayer \<Rightarrow> transformedLayer" where
  "shift_x diff l =
     (case l of TransformedLayer i ty c tr ch lr la cr gp \<Rightarrow>
        TransformedLayer i ty (c\<lparr>x := jadd (x c) diff\<rparr>)
          (tr\<lparr>offsetX := jadd (offsetX tr) diff\<rparr>) ch lr la cr gp)"

text \<open>One iteration of the sweep, for \<open>prev = flowItems[i-1]\<close> at \<open>p\<close> and \<open>curr\<close> at \<open>c\<close>.\<close>

definition sweep_step ::
  "feedbackStrategy option \<Rightarrow> layoutStrategy option \<Rightarrow> nat \<Rightarrow> nat \<Rightarrow> transformedLayer list
     \<Rightarrow> transformedLayer list" where
  "sweep_step feedback strategy p c ls =
     (let prev = ls ! p;
          curr = ls ! c
      in case getOverride (t_id curr) feedback strategy of
           Some _ \<Rightarrow> ls
         | None \<Rightarrow>
             (let prevEnd = jadd (x (t_coords prev)) (w (t_coords prev))
              in if jlt (x (t_coords curr)) (jadd prevEnd (Fin 10))
                 then ls[c := shift_x (jsub (jadd prevEnd (Fin 10)) (x (t_coords curr))) curr]
                 else ls))"

function sweep ::
  "feedbackStrategy option \<Rightarrow> layoutStrategy option \<Rightarrow> nat list \<Rightarrow> nat \<Rightarrow> transformedLayer list
     \<Rightarrow> transformedLayer list" where
  "sweep feedback strategy fi i ls =
     (if i < length fi
      then sweep feedback strategy fi (Suc i)
             (sweep_step feedback strategy (fi ! (i - 1)) (fi ! i) ls)
      else ls)"
  by pat_completeness auto
termination
  by (relation "measure (\<lambda>(feedback, strategy, fi, i, ls). length fi - i)") auto

definition RemapperInstanceRow_collisionSolver ::
  "feedbackStrategy option \<Rightarrow> layoutStrategy option \<Rightarrow> transformedLayer list
     \<Rightarrow> transformedLayer list" where
  "RemapperInstanceRow_collisionSolver feedback strategy transformedLayers =
     (if opt_field (opt_field strategy physicsRules) preventOverlap = Some True
      then sweep feedback strategy (flowItems feedback strategy transformedLayers) 1 transformedLayers
      else transformedLayers)"

section \<open>Payload assembly and the two effects\<close>

text \<open>\<open>a || b\<close> on optional booleans: \<open>a\<close> when it is \<open>true\<close>, else \<open>b\<close>.\<close>

definition bool_or :: "bool option \<Rightarrow> bool option \<Rightarrow> bool option" where
  "bool_or a b = (if a = Some True then a else b)"

definition method_requires_generation :: "layoutStrategy option \<Rightarrow> bool" where
  "method_requires_generation strategy =
     (map_option s_method strategy = Some ''GENERATIVE'' \<or> map_option s_method strategy = Some ''HYBRID'')"

text \<open>
  \<open>containerNameFromHandle\<close>: \<open>null\<close> for a missing or empty handle; the handle
  without its prefix \<open>slot-bounds-\<close>; \<open>Proxy Target\<close> for a handle that starts with
  \<open>target-out-\<close>; the handle itself otherwise.
\<close>

definition containerNameFromHandle :: "string option \<Rightarrow> string option" where
  "containerNameFromHandle handle =
     (case handle of
        None \<Rightarrow> None
      | Some hd_ \<Rightarrow>
          if hd_ = [] then None
          else if take 12 hd_ = ''slot-bounds-'' then Some (drop 12 hd_)
          else if take 11 hd_ = ''target-out-'' then Some ''Proxy Target''
          else Some hd_)"

text \<open>
  The effect of \<open>RemapperInstance\<close>. It returns without registering anything when the
  source context or the target bounds are missing; otherwise it registers the payload
  built here. \<open>now\<close> is the value of \<open>Date.now()\<close>; \<open>handle\<close> is
  \<open>targetEdge?.sourceHandle\<close>. The lookups in the registries of the host, which
  give \<open>sourceContext\<close>, \<open>targetBounds\<close> and \<open>feedback\<close>, are not part of the engine:
  their results are the arguments.
\<close>

definition RemapperInstance_run ::
  "string \<Rightarrow> mappingContext option \<Rightarrow> rect option \<Rightarrow> string option
     \<Rightarrow> feedbackStrategy option \<Rightarrow> jsnum \<Rightarrow> transformedPayload option" where
  "RemapperInstance_run nodeId sourceContext targetBounds handle feedback now =
     (case sourceContext of
        None \<Rightarrow> None
      | Some ctx \<Rightarrow>
          (case targetBounds of
             None \<Rightarrow> None
           | Some tb \<Rightarrow>
               (let sb = bounds (container ctx);
                    ovs = RemapperInstance_overrides feedback (aiStrategy ctx);
                    resultLayers = RemapperInstance_transformLayers sb tb ovs (aiStrategy ctx) 0 (layers ctx)
                in Some
                     \<lparr>status = ''success'',
                      sourceNodeId = nodeId,
                      p_sourceContainer = containerName (container ctx),
                      p_targetContainer =
                        (case containerNameFromHandle handle of
                           None \<Rightarrow> ''Unknown''
                         | Some n \<Rightarrow> if n = [] then ''Unknown'' else n),
                      p_layers = resultLayers,
                      scaleFactor = Fin 1,
                      p_metrics = \<lparr>source = (w sb, h sb), target = (w tb, h tb)\<rparr>,
                      p_targetBounds = tb,
                      isConfirmed =
                        bool_or (map_option isCommitted feedback)
                          (opt_field (aiStrategy ctx) isExplicitIntent),
                      requiresGeneration = method_requires_generation (aiStrategy ctx),
                      p_previewUrl = previewUrl ctx,
                      p_sourceReference = opt_field (aiStrategy ctx) sourceReference,
                      generationId = now,
                      p_triangulation = opt_field (aiStrategy ctx) triangulation\<rparr>)))"

text \<open>
  The effect of \<open>RemapperInstanceRow\<close>: the mapper over the top-level list, the
  collision solver, the payload.
\<close>

definition RemapperInstanceRow_run ::
  "string \<Rightarrow> mappingContext option \<Rightarrow> containerDefinition option
     \<Rightarrow> feedbackStrategy option \<Rightarrow> jsnum \<Rightarrow> transformedPayload option" where
  "RemapperInstanceRow_run nodeId sourceData targetData feedback now =
     (case sourceData of
        None \<Rightarrow> None
      | Some sd \<Rightarrow>
          (case targetData of
             None \<Rightarrow> None
           | Some td \<Rightarrow>
               (let strategy = aiStrategy sd;
                    sb = bounds (container sd);
                    tb = c_bounds td;
                    transformedLayers =
                      RemapperInstanceRow_collisionSolver feedback strategy
                        (map (RemapperInstanceRow_transformLayer sb tb feedback strategy) (layers sd))
                in Some
                     \<lparr>status = ''success'',
                      sourceNodeId = nodeId,
                      p_sourceContainer = containerName (container sd),
                      p_targetContainer = name td,
                      p_layers = transformedLayers,
                      scaleFactor = RemapperInstanceRow_baseScale sb tb strategy,
                      p_metrics = \<lparr>source = (w sb, h sb), target = (w tb, h tb)\<rparr>,
                      p_targetBounds = tb,
                      isConfirmed = Some (case feedback of None \<Rightarrow> False | Some f \<Rightarrow> isCommitted f),
                      requiresGeneration = method_requires_generation strategy,
                      p_previewUrl = previewUrl sd,
                      p_sourceReference = opt_field strategy sourceReference,
                      generationId = orElse (opt_field strategy timestamp) now,
                      p_triangulation = opt_field strategy triangulation\<rparr>)))"

text \<open>
  What one iteration of the sweep does to \<open>curr\<close>, in terms of \<open>prev\<close> as the sweep has
  left it, of \<open>curr\<close> before the sweep (\<open>orig\<close>) and after it (\<open>nxt\<close>): a locked
  \<open>curr\<close> is untouched; an unlocked one with \<open>curr.coords.x < prevEnd + padding\<close> is
  shifted by \<open>diff = (prevEnd + padding) - curr.coords.x\<close>; any other is untouched.
\<close>

definition swept ::
  "feedbackStrategy option \<Rightarrow> layoutStrategy option \<Rightarrow> transformedLayer \<Rightarrow> transformedLayer
     \<Rightarrow> transformedLayer \<Rightarrow> bool" where
  "swept feedback strategy prev nxt orig =
     (let bound = jadd (jadd (x (t_coords prev)) (w (t_coords prev))) (Fin 10)
      in if getOverride (t_id orig) feedback strategy \<noteq> None then nxt = orig
         else if jlt (x (t_coords orig)) bound
         then nxt = shift_x (jsub bound (x (t_coords orig))) orig
         else nxt = orig)"

text \<open>The rational value of a finite number (and \<open>0\<close> for the others).\<close>

fun the_rat :: "jsnum \<Rightarrow> rat" where
  "the_rat (Fin a) = a"
| "the_rat _ = 0"

section \<open>Layer trees\<close>

text \<open>Every layer of a tree, parent before children, and of a list of trees.\<close>

fun subtree :: "layer \<Rightarrow> layer list" where
  "subtree (Layer lid ty c ch lr la cr) =
     Layer lid ty c ch lr la cr # (case ch of None \<Rightarrow> [] | Some cs \<Rightarrow> concat (map subtree cs))"

fun t_subtree :: "transformedLayer \<Rightarrow> transformedLayer list" where
  "t_subtree (TransformedLayer lid ty c tr ch lr la cr gp) =
     TransformedLayer lid ty c tr ch lr la cr gp
       # (case ch of None \<Rightarrow> [] | Some cs \<Rightarrow> concat (map t_subtree cs))"

definition forest :: "layer list \<Rightarrow> layer list" where
  "forest ls = concat (map subtree ls)"

definition t_forest :: "transformedLayer list \<Rightarrow> transformedLayer list" where
  "t_forest ls = concat (map t_subtree ls)"

text \<open>What a transformed layer carries besides its geometry.\<close>

definition t_meta ::
  "transformedLayer \<Rightarrow> string \<times> string \<times> string option \<times> string option \<times> string option \<times> string option" where
  "t_meta l = (t_id l, t_type l, t_layoutRole l, t_linkedAnchorId l, t_citedRule l, t_generativePrompt l)"

section \<open>Concrete inputs\<close>

text \<open>
  The end-to-end example of the specification: a source container \<open>100 x 100\<close> at the
  origin with one layer \<open>{x: 0, y: 0, w: 50, h: 50}\<close>, a target \<open>400 x 200\<close> at
  \<open>(10, 10)\<close>, no strategy and no feedback.
\<close>

definition ex_layer :: layer where
  "ex_layer = Layer ''L1'' ''normal'' \<lparr>x = Fin 0, y = Fin 0, w = Fin 50, h = Fin 50\<rparr>
                None None (Some ''anchor-7'') (Some ''rule-3'')"

definition ex_source :: mappingContext where
  "ex_source =
     \<lparr>container = \<lparr>containerName = ''card'', bounds = \<lparr>x = Fin 0, y = Fin 0, w = Fin 100, h = Fin 100\<rparr>\<rparr>,
      layers = [ex_layer], aiStrategy = None, previewUrl = None\<rparr>"

definition ex_bounds :: rect where
  "ex_bounds = \<lparr>x = Fin 10, y = Fin 10, w = Fin 400, h = Fin 200\<rparr>"

definition ex_target :: containerDefinition where
  "ex_target = \<lparr>name = ''hero'', c_bounds = ex_bounds\<rparr>"

text \<open>The same source with a container of width zero, and one of width and height zero.\<close>

definition flat_source :: mappingContext where
  "flat_source =
     ex_source\<lparr>container := \<lparr>containerName = ''card'', bounds = \<lparr>x = Fin 0, y = Fin 0, w = Fin 0, h = Fin 100\<rparr>\<rparr>\<rparr>"

definition point_source :: mappingContext where
  "point_source =
     ex_source\<lparr>container := \<lparr>containerName = ''card'', bounds = \<lparr>x = Fin 0, y = Fin 0, w = Fin 0, h = Fin 0\<rparr>\<rparr>\<rparr>"

text \<open>A strategy with one override, for layer \<open>L1\<close>, and a feedback that holds none.\<close>

definition ov_L1 :: layerOverride where
  "ov_L1 =
     \<lparr>layerId = ''L1'', xOffset = Some (Fin 5), yOffset = Some (Fin 7),
      individualScale = Some (Fin 2), rotation = None, layoutRole = None,
      linkedAnchorId = Some ''anchor-9'', citedRule = Some ''rule-1''\<rparr>"

definition ex_strategy :: layoutStrategy where
  "ex_strategy =
     \<lparr>s_method = ''GEOMETRIC'', suggestedScale = None, layoutMode = None,
      overrides = Some [ov_L1], replaceLayerId = None, generativePrompt = None,
      physicsRules = None, isExplicitIntent = None, sourceReference = None,
      triangulation = None, timestamp = None\<rparr>"

definition empty_feedback :: feedbackStrategy where
  "empty_feedback = \<lparr>fb_overrides = Some [], isCommitted = True\<rparr>"

text \<open>
  A feedback that is not committed, and a source whose strategy carries the
  explicit-intent flag.
\<close>

definition open_feedback :: feedbackStrategy where
  "open_feedback = \<lparr>fb_overrides = None, isCommitted = False\<rparr>"

definition intent_source :: mappingContext where
  "intent_source = ex_source\<lparr>aiStrategy := Some (ex_strategy\<lparr>overrides := None, isExplicitIntent := Some True\<rparr>)\<rparr>"

text \<open>
  Strategies that name layer \<open>L1\<close>, or a layer \<open>L2\<close> that is not in the tree, for
  generative replacement.
\<close>

definition replace_strategy :: "string \<Rightarrow> string \<Rightarrow> layoutStrategy" where
  "replace_strategy m lid =
     ex_strategy\<lparr>s_method := m, overrides := None, replaceLayerId := Some lid,
                 generativePrompt := Some ''a red car''\<rparr>"

definition replace_source :: "string \<Rightarrow> string \<Rightarrow> mappingContext" where
  "replace_source m lid = ex_source\<lparr>aiStrategy := Some (replace_strategy m lid)\<rparr>"

text \<open>
  Three top-level layers, \<open>A\<close>, \<open>B\<close> (whose own \<open>layoutRole\<close> is \<open>background\<close>) and
  the layer \<open>L1\<close> that the example strategy overrides; a strategy that distributes
  horizontally, and one that prevents overlap.
\<close>

definition three_layers :: "layer list" where
  "three_layers =
     [Layer ''A'' ''normal'' \<lparr>x = Fin 0, y = Fin 0, w = Fin 30, h = Fin 10\<rparr> None None None None,
      Layer ''B'' ''normal'' \<lparr>x = Fin 20, y = Fin 0, w = Fin 30, h = Fin 10\<rparr> None
        (Some ''background'') None None,
      ex_layer]"

definition grid_source :: mappingContext where
  "grid_source =
     ex_source\<lparr>layers := three_layers,
                aiStrategy := Some (ex_strategy\<lparr>layoutMode := Some ''DISTRIBUTE_HORIZONTAL''\<rparr>)\<rparr>"

definition sweep_strategy :: layoutStrategy where
  "sweep_strategy = ex_strategy\<lparr>physicsRules := Some \<lparr>preventOverlap = Some True\<rparr>\<rparr>"

definition sweep_source :: mappingContext where
  "sweep_source = ex_source\<lparr>layers := three_layers, aiStrategy := Some sweep_strategy\<rparr>"

definition unit_target :: containerDefinition where
  "unit_target = \<lparr>name = ''slot'', c_bounds = \<lparr>x = Fin 0, y = Fin 0, w = Fin 100, h = Fin 100\<rparr>\<rparr>"

text \<open>The source of the sweep example with a container of width zero.\<close>

definition flat_sweep_source :: mappingContext where
  "flat_sweep_source =
     sweep_source\<lparr>container := \<lparr>containerName = ''card'', bounds = \<lparr>x = Fin 0, y = Fin 0, w = Fin 0, h = Fin 100\<rparr>\<rparr>\<rparr>"

section \<open>Override resolution: properties\<close>

lemma find_override_layerId: "find_override lid os = Some v \<Longrightarrow> layerId v = lid"
  by (induction os) (auto split: if_splits)

text \<open>
  The resolver of \<open>RemapperInstanceRow\<close> decides per layer: an override of the
  feedback for the layer wins, and without one the strategy's list is searched.
\<close>

lemma getOverride_feedback_first:
  "find_override lid fos = Some m \<Longrightarrow>
     getOverride lid (Some \<lparr>fb_overrides = Some fos, isCommitted = c\<rparr>) strategy = Some m"
  by (simp add: getOverride_def)

lemma getOverride_falls_back:
  "find_override lid fos = None \<Longrightarrow>
     getOverride lid (Some \<lparr>fb_overrides = Some fos, isCommitted = c\<rparr>) (Some s)
       = (case overrides s of None \<Rightarrow> None | Some sos \<Rightarrow> find_override lid sos)"
  by (simp add: getOverride_def)

text \<open>
  Claim C1 (override priority is decided per \<open>layerId\<close>): the resolver of
  \<open>RemapperInstance\<close> does not do this. With a feedback whose override list is
  empty and a strategy that holds an override for layer \<open>L1\<close>, it resolves nothing
  for \<open>L1\<close>: the feedback's list has replaced the strategy's as a whole. The resolver
  of \<open>RemapperInstanceRow\<close> returns the strategy's override on the same input.
\<close>

theorem RemapperInstance_getOverride_drops_strategy:
  "RemapperInstance_getOverride (RemapperInstance_overrides (Some empty_feedback) (Some ex_strategy)) ''L1'' = None
   \<and> getOverride ''L1'' (Some empty_feedback) (Some ex_strategy) = Some ov_L1"
  by (simp add: RemapperInstance_getOverride_def RemapperInstance_overrides_def getOverride_def
      empty_feedback_def ex_strategy_def ov_L1_def)

section \<open>Payloads: emission and status\<close>

text \<open>
  Claim C2, as the code has it: whenever the source content and the target bounds are
  both present, each of the two components registers a payload, and its status is
  \<open>success\<close>. Nothing is asked of the source container: a width or height of zero
  raises no error, and no error value exists in either component.
\<close>

theorem engine_always_emits:
  "(\<exists>p. RemapperInstance_run nodeId (Some ctx) (Some tb) handle feedback now = Some p
        \<and> status p = ''success'')
   \<and> (\<exists>q. RemapperInstanceRow_run nodeId (Some sd) (Some td) feedback now = Some q
        \<and> status q = ''success'')"
  by (simp add: RemapperInstance_run_def RemapperInstanceRow_run_def Let_def)

text \<open>
  Claim C2 as stated fails. For a source container of width zero,
  \<open>RemapperInstanceRow\<close> registers a payload whose layer has the position
  \<open>(NaN, NaN)\<close> and an infinite size; for a source container of width and height zero,
  \<open>RemapperInstance\<close> registers one whose layer sits at \<open>(-Infinity, -Infinity)\<close>.
\<close>

theorem degenerate_source_emits_payload:
  "map_option (\<lambda>p. (status p, map t_coords (p_layers p)))
     (RemapperInstanceRow_run ''n'' (Some flat_source) (Some ex_target) None (Fin 7))
     = Some (''success'', [\<lparr>x = NaN, y = NaN, w = PosInf, h = PosInf\<rparr>])
   \<and> map_option (\<lambda>p. (status p, map t_coords (p_layers p)))
     (RemapperInstance_run ''n'' (Some point_source) (Some ex_bounds) None None (Fin 7))
     = Some (''success'', [\<lparr>x = NegInf, y = NegInf, w = PosInf, h = PosInf\<rparr>])"
  by code_simp

text \<open>
  Claim C10: every payload that either component registers has the status \<open>success\<close>,
  whatever the inputs are (degenerate containers and unknown strategy methods or
  layout modes included).
\<close>

theorem payload_status_success:
  "(RemapperInstance_run nodeId sourceContext targetBounds handle feedback now = Some p
      \<longrightarrow> status p = ''success'')
   \<and> (RemapperInstanceRow_run nodeId sourceData targetData feedback now = Some q
      \<longrightarrow> status q = ''success'')"
  by (auto simp: RemapperInstance_run_def RemapperInstanceRow_run_def Let_def split: option.splits)

text \<open>The same at the source container of width zero, where both components register a payload.\<close>

theorem payload_status_success_witness:
  "\<exists>p q. RemapperInstance_run ''n'' (Some flat_source) (Some ex_bounds) None None (Fin 7) = Some p
      \<and> status p = ''success''
      \<and> RemapperInstanceRow_run ''n'' (Some flat_source) (Some ex_target) None (Fin 7) = Some q
      \<and> status q = ''success''"
proof -
  obtain p where p: "RemapperInstance_run ''n'' (Some flat_source) (Some ex_bounds) None None (Fin 7) = Some p"
    by (simp add: RemapperInstance_run_def Let_def)
  obtain q where q: "RemapperInstanceRow_run ''n'' (Some flat_source) (Some ex_target) None (Fin 7) = Some q"
    by (simp add: RemapperInstanceRow_run_def Let_def)
  from p q payload_status_success
    [where nodeId = "''n''" and sourceContext = "Some flat_source" and targetBounds = "Some ex_bounds"
       and handle = None and feedback = None and now = "Fin 7" and p = p
       and sourceData = "Some flat_source" and targetData = "Some ex_target" and q = q]
  show ?thesis by blast
qed

section \<open>Layer trees: the mappers and the solvers\<close>

text \<open>
  The mappers transform a tree node by node, and the solvers change nothing of a layer
  but its geometry. Below depth 0 the grid solver of \<open>RemapperInstance\<close> does not run,
  so the depth does not matter to what a layer is mapped to.
\<close>

lemma physics_nested [simp]: "RemapperInstance_physics tb ovs st (Suc d) ls = ls"
  by (simp add: RemapperInstance_physics_def split: option.splits)

lemma mapLayer_depth:
  "RemapperInstance_mapLayer sb tb ovs st d l = RemapperInstance_mapLayer sb tb ovs st 0 l"
proof (induction l arbitrary: d)
  case (Layer lid ty c ch lr la cr)
  have "map (RemapperInstance_mapLayer sb tb ovs st (Suc d)) cs
          = map (RemapperInstance_mapLayer sb tb ovs st (Suc 0)) cs" if "ch = Some cs" for cs
    using that Layer.IH [of cs _ "Suc d"] Layer.IH [of cs _ "Suc 0"] by (auto simp: map_eq_conv)
  then show ?case by (cases ch) (simp_all add: Let_def)
qed

lemma row_subtree:
  "t_subtree (RemapperInstanceRow_transformLayer sb tb fb st l)
     = map (RemapperInstanceRow_transformLayer sb tb fb st) (subtree l)"
proof (induction l)
  case (Layer lid ty c ch lr la cr)
  show ?case
  proof (cases ch)
    case None
    then show ?thesis by (simp add: Let_def)
  next
    case (Some cs)
    have kids: "map (\<lambda>c. t_subtree (RemapperInstanceRow_transformLayer sb tb fb st c)) cs
            = map (\<lambda>c. map (RemapperInstanceRow_transformLayer sb tb fb st) (subtree c)) cs"
      by (rule map_cong [OF refl]) (use Layer.IH [of cs] Some in simp)
    show ?thesis using Some by (simp add: Let_def map_concat comp_def kids)
  qed
qed

lemma instance_subtree:
  "t_subtree (RemapperInstance_mapLayer sb tb ovs st d l)
     = map (RemapperInstance_mapLayer sb tb ovs st 0) (subtree l)"
proof (induction l arbitrary: d)
  case (Layer lid ty c ch lr la cr)
  let ?L = "Layer lid ty c ch lr la cr"
  show ?case
  proof (cases ch)
    case None
    then show ?thesis by (simp add: Let_def)
  next
    case (Some cs)
    have kids: "map (\<lambda>c. t_subtree (RemapperInstance_mapLayer sb tb ovs st (Suc d) c)) cs
            = map (\<lambda>c. map (RemapperInstance_mapLayer sb tb ovs st 0) (subtree c)) cs"
      by (rule map_cong [OF refl]) (use Layer.IH [of cs _ "Suc d"] Some in simp)
    have "t_subtree (RemapperInstance_mapLayer sb tb ovs st d ?L)
            = RemapperInstance_mapLayer sb tb ovs st d ?L
                # concat (map (\<lambda>c. t_subtree (RemapperInstance_mapLayer sb tb ovs st (Suc d) c)) cs)"
      using Some by (simp add: Let_def comp_def)
    also have "\<dots> = RemapperInstance_mapLayer sb tb ovs st 0 ?L
                # concat (map (\<lambda>c. map (RemapperInstance_mapLayer sb tb ovs st 0) (subtree c)) cs)"
      unfolding kids using mapLayer_depth [of sb tb ovs st d ?L] by simp
    also have "\<dots> = map (RemapperInstance_mapLayer sb tb ovs st 0) (subtree ?L)"
      using Some by (simp add: map_concat comp_def del: RemapperInstance_mapLayer.simps)
    finally show ?thesis .
  qed
qed

lemma row_forest:
  "t_forest (map (RemapperInstanceRow_transformLayer sb tb fb st) ls)
     = map (RemapperInstanceRow_transformLayer sb tb fb st) (forest ls)"
  by (simp add: t_forest_def forest_def map_concat comp_def row_subtree)

lemma instance_forest:
  "t_forest (map (RemapperInstance_mapLayer sb tb ovs st d) ls)
     = map (RemapperInstance_mapLayer sb tb ovs st 0) (forest ls)"
  by (simp add: t_forest_def forest_def map_concat comp_def instance_subtree)


declare sweep.simps [simp del]

lemma map_update_same:
  assumes "F v = F (xs ! i)"
  shows "map F (xs[i := v]) = map F xs"
proof (cases "i < length xs")
  case True
  with assms have "(map F xs)[i := F v] = map F xs"
    by (simp add: list_update_same_conv)
  then show ?thesis by (simp add: map_update)
next
  case False
  then show ?thesis by (simp add: list_update_beyond)
qed

lemma meta_shift_x: "map t_meta (t_subtree (shift_x d l)) = map t_meta (t_subtree l)"
  by (cases l) (simp add: shift_x_def t_meta_def)

lemma meta_set_coords_x: "map t_meta (t_subtree (set_coords_x v l)) = map t_meta (t_subtree l)"
  by (cases l) (simp add: set_coords_x_def t_meta_def)

lemma meta_set_coords_y: "map t_meta (t_subtree (set_coords_y v l)) = map t_meta (t_subtree l)"
  by (cases l) (simp add: set_coords_y_def t_meta_def)

lemma meta_sweep_step:
  "map (\<lambda>l. map t_meta (t_subtree l)) (sweep_step fb st p c ls) = map (\<lambda>l. map t_meta (t_subtree l)) ls"
  by (simp add: sweep_step_def Let_def map_update_same meta_shift_x split: option.splits)

lemma meta_sweep:
  "map (\<lambda>l. map t_meta (t_subtree l)) (sweep fb st fi i ls) = map (\<lambda>l. map t_meta (t_subtree l)) ls"
proof (induction fb st fi i ls rule: sweep.induct)
  case (1 fb st fi i ls)
  show ?case
  proof (cases "i < length fi")
    case True
    then show ?thesis using "1.IH" by (subst sweep.simps) (simp add: meta_sweep_step)
  next
    case False
    then show ?thesis by (subst sweep.simps) simp
  qed
qed

lemma meta_distributeH:
  "map (\<lambda>l. map t_meta (t_subtree l)) (distributeH tb m s cands idx ls) = map (\<lambda>l. map t_meta (t_subtree l)) ls"
  by (induction cands arbitrary: idx ls) (simp_all add: Let_def map_update_same meta_set_coords_x)

lemma meta_distributeV:
  "map (\<lambda>l. map t_meta (t_subtree l)) (distributeV tb m s cands idx ls) = map (\<lambda>l. map t_meta (t_subtree l)) ls"
  by (induction cands arbitrary: idx ls) (simp_all add: Let_def map_update_same meta_set_coords_y)

lemma meta_physics:
  "map (\<lambda>l. map t_meta (t_subtree l)) (RemapperInstance_physics tb ovs st d ls) = map (\<lambda>l. map t_meta (t_subtree l)) ls"
  by (simp add: RemapperInstance_physics_def Let_def meta_distributeH meta_distributeV split: option.splits)

lemma meta_collisionSolver:
  "map (\<lambda>l. map t_meta (t_subtree l)) (RemapperInstanceRow_collisionSolver fb st ls) = map (\<lambda>l. map t_meta (t_subtree l)) ls"
  by (simp add: RemapperInstanceRow_collisionSolver_def meta_sweep)

lemma meta_forest: "map t_meta (t_forest ls) = concat (map (\<lambda>l. map t_meta (t_subtree l)) ls)"
  by (simp add: t_forest_def map_concat comp_def)

lemma row_payload_meta:
  "map t_meta (t_forest (RemapperInstanceRow_collisionSolver fb st
       (map (RemapperInstanceRow_transformLayer sb tb fb st) ls)))
     = map (\<lambda>l. t_meta (RemapperInstanceRow_transformLayer sb tb fb st l)) (forest ls)"
proof -
  have "map t_meta (t_forest (RemapperInstanceRow_collisionSolver fb st
       (map (RemapperInstanceRow_transformLayer sb tb fb st) ls)))
     = map t_meta (t_forest (map (RemapperInstanceRow_transformLayer sb tb fb st) ls))"
    by (simp only: meta_forest meta_collisionSolver)
  then show ?thesis by (simp add: row_forest)
qed

lemma instance_payload_meta:
  "map t_meta (t_forest (RemapperInstance_transformLayers sb tb ovs st 0 ls))
     = map (\<lambda>l. t_meta (RemapperInstance_mapLayer sb tb ovs st 0 l)) (forest ls)"
proof -
  have "map t_meta (t_forest (RemapperInstance_transformLayers sb tb ovs st 0 ls))
     = map t_meta (t_forest (map (RemapperInstance_mapLayer sb tb ovs st 0) ls))"
    unfolding RemapperInstance_transformLayers_def by (simp only: meta_forest meta_physics)
  then show ?thesis by (simp add: instance_forest)
qed

lemma meta_proj:
  assumes "map t_meta ts = map (\<lambda>l. t_meta (f l)) ls"
  shows "map t_linkedAnchorId ts = map (\<lambda>l. t_linkedAnchorId (f l)) ls"
    and "map t_citedRule ts = map (\<lambda>l. t_citedRule (f l)) ls"
    and "map t_type ts = map (\<lambda>l. t_type (f l)) ls"
    and "map t_generativePrompt ts = map (\<lambda>l. t_generativePrompt (f l)) ls"
    and "map t_id ts = map (\<lambda>l. t_id (f l)) ls"
proof -
  have "map g (map t_meta ts) = map g (map (\<lambda>l. t_meta (f l)) ls)" for g :: "_ \<Rightarrow> string option"
    by (simp only: assms)
  from this [of "\<lambda>m. fst (snd (snd (snd m)))"] this [of "\<lambda>m. fst (snd (snd (snd (snd m))))"]
    this [of "\<lambda>m. snd (snd (snd (snd (snd m))))"]
  show "map t_linkedAnchorId ts = map (\<lambda>l. t_linkedAnchorId (f l)) ls"
    and "map t_citedRule ts = map (\<lambda>l. t_citedRule (f l)) ls"
    and "map t_generativePrompt ts = map (\<lambda>l. t_generativePrompt (f l)) ls"
    by (simp_all add: t_meta_def comp_def)
  have "map g (map t_meta ts) = map g (map (\<lambda>l. t_meta (f l)) ls)" for g :: "_ \<Rightarrow> string"
    by (simp only: assms)
  from this [of "\<lambda>m. fst (snd m)"] this [of fst]
  show "map t_type ts = map (\<lambda>l. t_type (f l)) ls"
    and "map t_id ts = map (\<lambda>l. t_id (f l)) ls"
    by (simp_all add: t_meta_def comp_def)
qed

lemma row_layer_provenance:
  "t_linkedAnchorId (RemapperInstanceRow_transformLayer sb tb fb st l) = l_linkedAnchorId l"
  "t_citedRule (RemapperInstanceRow_transformLayer sb tb fb st l) = l_citedRule l"
  by (cases l; simp add: Let_def)+

lemma instance_layer_provenance:
  "t_linkedAnchorId (RemapperInstance_mapLayer sb tb ovs st d l)
     = opt_field (RemapperInstance_getOverride ovs (l_id l)) linkedAnchorId"
  "t_citedRule (RemapperInstance_mapLayer sb tb ovs st d l)
     = opt_field (RemapperInstance_getOverride ovs (l_id l)) citedRule"
  by (cases l; simp add: Let_def)+

text \<open>
  Claim C9, as the code has it. In the payload of \<open>RemapperInstanceRow\<close> every layer
  of the tree carries the \<open>linkedAnchorId\<close> and the \<open>citedRule\<close> of the input layer
  it comes from. In the payload of \<open>RemapperInstance\<close> every layer carries the
  \<open>linkedAnchorId\<close> and the \<open>citedRule\<close> of the override resolved for it, and none
  when no override is resolved; the input layer's own values are overwritten.
\<close>

theorem provenance_metadata:
  "(\<exists>q. RemapperInstanceRow_run nodeId (Some sd) (Some td) feedback now = Some q
       \<and> map t_linkedAnchorId (t_forest (p_layers q)) = map l_linkedAnchorId (forest (layers sd))
       \<and> map t_citedRule (t_forest (p_layers q)) = map l_citedRule (forest (layers sd)))
   \<and> (\<exists>p. RemapperInstance_run nodeId (Some ctx) (Some tb) handle feedback now = Some p
       \<and> map t_linkedAnchorId (t_forest (p_layers p))
           = map (\<lambda>l. opt_field (RemapperInstance_getOverride
                   (RemapperInstance_overrides feedback (aiStrategy ctx)) (l_id l)) linkedAnchorId)
               (forest (layers ctx))
       \<and> map t_citedRule (t_forest (p_layers p))
           = map (\<lambda>l. opt_field (RemapperInstance_getOverride
                   (RemapperInstance_overrides feedback (aiStrategy ctx)) (l_id l)) citedRule)
               (forest (layers ctx)))"
proof (intro conjI)
  show "\<exists>q. RemapperInstanceRow_run nodeId (Some sd) (Some td) feedback now = Some q
       \<and> map t_linkedAnchorId (t_forest (p_layers q)) = map l_linkedAnchorId (forest (layers sd))
       \<and> map t_citedRule (t_forest (p_layers q)) = map l_citedRule (forest (layers sd))"
    unfolding RemapperInstanceRow_run_def
    using meta_proj(1,2) [OF row_payload_meta]
    by (simp add: Let_def row_layer_provenance)
  show "\<exists>p. RemapperInstance_run nodeId (Some ctx) (Some tb) handle feedback now = Some p
       \<and> map t_linkedAnchorId (t_forest (p_layers p))
           = map (\<lambda>l. opt_field (RemapperInstance_getOverride
                   (RemapperInstance_overrides feedback (aiStrategy ctx)) (l_id l)) linkedAnchorId)
               (forest (layers ctx))
       \<and> map t_citedRule (t_forest (p_layers p))
           = map (\<lambda>l. opt_field (RemapperInstance_getOverride
                   (RemapperInstance_overrides feedback (aiStrategy ctx)) (l_id l)) citedRule)
               (forest (layers ctx))"
    unfolding RemapperInstance_run_def
    using meta_proj(1,2) [OF instance_payload_meta]
    by (simp add: Let_def instance_layer_provenance)
qed

text \<open>
  Claim C9 as stated fails in \<open>RemapperInstance\<close>. The example layer carries
  \<open>anchor-7\<close> and \<open>rule-3\<close>; without an override the output layer carries neither,
  and with the override of the example strategy it carries the override's \<open>anchor-9\<close>
  and \<open>rule-1\<close>.
\<close>

theorem RemapperInstance_replaces_provenance:
  "map_option (\<lambda>p. map (\<lambda>t. (t_linkedAnchorId t, t_citedRule t)) (p_layers p))
     (RemapperInstance_run ''n'' (Some ex_source) (Some ex_bounds) None None (Fin 7))
     = Some [(None, None)]
   \<and> (l_linkedAnchorId ex_layer, l_citedRule ex_layer) = (Some ''anchor-7'', Some ''rule-3'')
   \<and> map_option (\<lambda>p. map (\<lambda>t. (t_linkedAnchorId t, t_citedRule t)) (p_layers p))
     (RemapperInstance_run ''n'' (Some (ex_source\<lparr>aiStrategy := Some ex_strategy\<rparr>)) (Some ex_bounds) None None (Fin 7))
     = Some [(Some ''anchor-9'', Some ''rule-1'')]"
  by code_simp

section \<open>Confirmation flag, geometry of a layer without override, generative promotion\<close>

text \<open>
  Claim C8, as the code has it. \<open>RemapperInstance\<close> computes
  \<open>feedback?.isCommitted || aiStrategy?.isExplicitIntent\<close>: \<open>isConfirmed\<close> is \<open>true\<close>
  when a feedback exists and is committed, and otherwise it is the strategy's
  explicit-intent flag (\<open>undefined\<close> when there is no strategy or no flag), also when a
  feedback exists and is not committed. \<open>RemapperInstanceRow\<close> computes
  \<open>feedback?.isCommitted || false\<close>: \<open>isConfirmed\<close> is \<open>true\<close> exactly when a
  feedback exists and is committed, and no flag of the strategy is read.
\<close>

theorem isConfirmed_value:
  "(\<exists>p. RemapperInstance_run nodeId (Some ctx) (Some tb) handle feedback now = Some p
       \<and> isConfirmed p =
             (if map_option isCommitted feedback = Some True then Some True
              else opt_field (aiStrategy ctx) isExplicitIntent))
   \<and> (\<exists>q. RemapperInstanceRow_run nodeId (Some sd) (Some td) feedback now = Some q
       \<and> isConfirmed q = Some (map_option isCommitted feedback = Some True))"
  by (cases feedback) (simp_all add: RemapperInstance_run_def RemapperInstanceRow_run_def Let_def bool_or_def)

text \<open>
  Claim C8 as stated fails. With an uncommitted feedback and a strategy that carries
  the explicit-intent flag, \<open>RemapperInstance\<close> reports \<open>isConfirmed = true\<close>, not the
  feedback's \<open>false\<close>; without feedback and with the same strategy,
  \<open>RemapperInstanceRow\<close> reports \<open>false\<close>, not the flag; without feedback and
  strategy, \<open>RemapperInstance\<close> reports \<open>undefined\<close>, not \<open>false\<close>.
\<close>

theorem isConfirmed_counterexample:
  "map_option isConfirmed
     (RemapperInstance_run ''n'' (Some intent_source) (Some ex_bounds) None (Some open_feedback) (Fin 7))
     = Some (Some True)
   \<and> isCommitted open_feedback = False
   \<and> map_option isConfirmed
     (RemapperInstanceRow_run ''n'' (Some intent_source) (Some ex_target) None (Fin 7))
     = Some (Some False)
   \<and> opt_field (aiStrategy intent_source) isExplicitIntent = Some True
   \<and> map_option isConfirmed
     (RemapperInstance_run ''n'' (Some ex_source) (Some ex_bounds) None None (Fin 7))
     = Some None"
  by code_simp

text \<open>
  Claim C3 as stated fails at its own example (source \<open>100 x 100\<close> at the origin, one
  layer \<open>{0, 0, 50, 50}\<close>, target \<open>400 x 200\<close> at \<open>(10, 10)\<close>). \<open>RemapperInstanceRow\<close>
  scales by \<open>max(4, 2) = 4\<close> (cover) and places the layer at \<open>(10, -90)\<close> with size
  \<open>200 x 200\<close>; \<open>RemapperInstance\<close> scales by \<open>min(4, 2) = 2\<close> (contain) and centres
  the layer in the target, at \<open>(160, 60)\<close>. Neither gives \<open>(110, 10)\<close>.
\<close>

theorem example_position_counterexample:
  "map_option (\<lambda>p. map t_coords (p_layers p))
     (RemapperInstanceRow_run ''n'' (Some ex_source) (Some ex_target) None (Fin 7))
     = Some [\<lparr>x = Fin 10, y = Fin (- 90), w = Fin 200, h = Fin 200\<rparr>]
   \<and> map_option (\<lambda>p. map t_coords (p_layers p))
     (RemapperInstance_run ''n'' (Some ex_source) (Some ex_bounds) None None (Fin 7))
     = Some [\<lparr>x = Fin 160, y = Fin 60, w = Fin 100, h = Fin 100\<rparr>]"
  by code_simp

text \<open>
  Claim C3, as the code has it: for a layer without a resolved override, the mapper of
  \<open>RemapperInstanceRow\<close> gives the position
  \<open>(layer.x - sourceBounds.x) * baseScale + (targetBounds.w - sourceBounds.w * baseScale) / 2 + targetBounds.x\<close>
  (and the same in \<open>y\<close>) and the size \<open>layer.w * baseScale\<close>, \<open>layer.h * baseScale\<close>,
  where \<open>baseScale\<close> is the strategy's \<open>suggestedScale\<close> when that is set and truthy,
  and \<open>max(targetBounds.w / sourceBounds.w, targetBounds.h / sourceBounds.h)\<close> (cover)
  otherwise.
\<close>

theorem unoverridden_layer_geometry:
  "getOverride (l_id l) feedback strategy = None \<Longrightarrow>
   t_coords (RemapperInstanceRow_transformLayer sb tb feedback strategy l) =
     \<lparr>x = jadd (jadd (jmul (jsub (x (l_coords l)) (x sb)) (RemapperInstanceRow_baseScale sb tb strategy))
                   (jdiv (jsub (w tb) (jmul (w sb) (RemapperInstanceRow_baseScale sb tb strategy))) (Fin 2)))
              (x tb),
      y = jadd (jadd (jmul (jsub (y (l_coords l)) (y sb)) (RemapperInstanceRow_baseScale sb tb strategy))
                   (jdiv (jsub (h tb) (jmul (h sb) (RemapperInstanceRow_baseScale sb tb strategy))) (Fin 2)))
              (y tb),
      w = jmul (w (l_coords l)) (RemapperInstanceRow_baseScale sb tb strategy),
      h = jmul (h (l_coords l)) (RemapperInstanceRow_baseScale sb tb strategy)\<rparr>
   \<and> RemapperInstanceRow_baseScale sb tb strategy =
       (if isTruthy (opt_field strategy suggestedScale) then toNumber (opt_field strategy suggestedScale)
        else Math_max (jdiv (w tb) (w sb)) (jdiv (h tb) (h sb)))"
  by (cases l) (simp add: Let_def RemapperInstanceRow_geometry_def RemapperInstanceRow_baseScale_def)

text \<open>
  At the example of the specification the base scale is \<open>4\<close> and the layer is mapped
  to \<open>{x: 10, y: -90, w: 200, h: 200}\<close>.
\<close>

theorem unoverridden_layer_geometry_witness:
  "getOverride (l_id ex_layer) None None = None
   \<and> RemapperInstanceRow_baseScale (bounds (container ex_source)) ex_bounds None = Fin 4
   \<and> t_coords (RemapperInstanceRow_transformLayer (bounds (container ex_source)) ex_bounds None None ex_layer)
       = \<lparr>x = Fin 10, y = Fin (- 90), w = Fin 200, h = Fin 200\<rparr>"
proof -
  have none: "getOverride (l_id ex_layer) None None = None"
    by (simp add: getOverride_def)
  note g = unoverridden_layer_geometry [OF none, of "bounds (container ex_source)" ex_bounds]
  have bs: "RemapperInstanceRow_baseScale (bounds (container ex_source)) ex_bounds None = Fin 4"
    using g [THEN conjunct2] by (simp add: opt_field_def ex_source_def ex_bounds_def)
  have "t_coords (RemapperInstanceRow_transformLayer (bounds (container ex_source)) ex_bounds None None ex_layer)
       = \<lparr>x = Fin 10, y = Fin (- 90), w = Fin 200, h = Fin 200\<rparr>"
    unfolding g [THEN conjunct1] bs
    by (simp add: ex_source_def ex_bounds_def ex_layer_def jsub_def)
  with none bs show ?thesis by simp
qed

lemma list_all2_from_meta:
  assumes "map t_meta ts = map (\<lambda>l. t_meta (f l)) ls"
    and "\<And>l t. t_meta t = t_meta (f l) \<Longrightarrow> P l t"
  shows "list_all2 P ls ts"
proof -
  from assms(1) have len: "length ts = length ls"
    by (metis length_map)
  moreover have "P (ls ! k) (ts ! k)" if "k < length ls" for k
  proof -
    from that len have "map t_meta ts ! k = t_meta (ts ! k)"
      and "map (\<lambda>l. t_meta (f l)) ls ! k = t_meta (f (ls ! k))" by simp_all
    with assms(1) have "t_meta (ts ! k) = t_meta (f (ls ! k))" by simp
    then show ?thesis by (rule assms(2))
  qed
  ultimately show ?thesis by (simp add: list_all2_conv_all_nth)
qed

lemma row_layer_promotion:
  "t_type (RemapperInstanceRow_transformLayer sb tb fb st l) =
     (if map_option s_method st = Some ''GENERATIVE'' \<and> opt_field st replaceLayerId = Some (l_id l)
      then ''generative'' else l_type l)"
  "t_generativePrompt (RemapperInstanceRow_transformLayer sb tb fb st l) =
     (if opt_field st replaceLayerId = Some (l_id l) then opt_field st generativePrompt else None)"
  by (cases l; simp only: RemapperInstanceRow_transformLayer.simps Let_def transformedLayer.sel layer.sel)+

lemma instance_layer_promotion:
  "t_type (RemapperInstance_mapLayer sb tb ovs st d l) =
     (if opt_field st replaceLayerId = Some (l_id l) then ''generative'' else l_type l)"
  "t_generativePrompt (RemapperInstance_mapLayer sb tb ovs st d l) =
     (if method_requires_generation st then opt_field st generativePrompt else None)"
  by (cases l; simp add: Let_def method_requires_generation_def)+

lemma row_run_layers:
  "\<exists>q. RemapperInstanceRow_run nodeId (Some sd) (Some td) feedback now = Some q
      \<and> p_layers q =
          RemapperInstanceRow_collisionSolver feedback (aiStrategy sd)
            (map (RemapperInstanceRow_transformLayer (bounds (container sd)) (c_bounds td) feedback (aiStrategy sd))
               (layers sd))"
  by (simp add: RemapperInstanceRow_run_def Let_def)

lemma instance_run_layers:
  "\<exists>p. RemapperInstance_run nodeId (Some ctx) (Some tb) handle feedback now = Some p
      \<and> p_layers p =
          RemapperInstance_transformLayers (bounds (container ctx)) tb
            (RemapperInstance_overrides feedback (aiStrategy ctx)) (aiStrategy ctx) 0 (layers ctx)"
  by (simp add: RemapperInstance_run_def Let_def)

section \<open>Flow layout: locked layers and the horizontal distribution\<close>

lemma t_id_mapLayer [simp]: "t_id (RemapperInstance_mapLayer sb tb ovs st d l) = l_id l"
  by (cases l) (simp add: Let_def)

lemma t_id_transformLayer [simp]: "t_id (RemapperInstanceRow_transformLayer sb tb fb st l) = l_id l"
  by (cases l) (simp only: RemapperInstanceRow_transformLayer.simps Let_def transformedLayer.sel layer.sel)

lemma distributeH_frame:
  "i \<notin> set cands \<Longrightarrow> distributeH tb m s cands idx ls ! i = ls ! i"
  by (induction cands arbitrary: idx ls) (simp_all add: Let_def)

lemma distributeV_frame:
  "i \<notin> set cands \<Longrightarrow> distributeV tb m s cands idx ls ! i = ls ! i"
  by (induction cands arbitrary: idx ls) (simp_all add: Let_def)

lemma distributeH_length [simp]: "length (distributeH tb m s cands idx ls) = length ls"
  by (induction cands arbitrary: idx ls) (simp_all add: Let_def)

lemma gridCandidates_set:
  "set (gridCandidates ovs ls) = {i. i < length ls \<and> isGridCandidate ovs (ls ! i)}"
  by (auto simp: gridCandidates_def)

lemma gridCandidates_distinct: "distinct (gridCandidates ovs ls)"
  by (simp add: gridCandidates_def)

lemma physics_frame:
  assumes "RemapperInstance_getOverride ovs (t_id (ls ! i)) \<noteq> None"
  shows "RemapperInstance_physics tb ovs st d ls ! i = ls ! i"
proof -
  from assms have "i \<notin> set (gridCandidates ovs ls)"
    by (auto simp: gridCandidates_set isGridCandidate_def)
  then show ?thesis
    by (simp add: RemapperInstance_physics_def Let_def distributeH_frame distributeV_frame
        split: option.splits)
qed

lemma transformLayers_locked:
  assumes "i < length ls" and "RemapperInstance_getOverride ovs (l_id (ls ! i)) \<noteq> None"
  shows "RemapperInstance_transformLayers sb tb ovs st 0 ls ! i = RemapperInstance_mapLayer sb tb ovs st 0 (ls ! i)"
  unfolding RemapperInstance_transformLayers_def
  using assms by (subst physics_frame) simp_all

lemma distributeH_nth:
  assumes "distinct cands" and "k < length cands" and "\<forall>i\<in>set cands. i < length ls"
  shows "distributeH tb m s cands idx ls ! (cands ! k) =
           set_coords_x
             (jsub (jadd (jadd (jadd (x tb) m) (jmul s (Fin (of_nat (idx + k))))) (jdiv s (Fin 2)))
                   (jdiv (w (t_coords (ls ! (cands ! k)))) (Fin 2)))
             (ls ! (cands ! k))"
  using assms
proof (induction cands arbitrary: idx ls k)
  case Nil
  then show ?case by simp
next
  case (Cons i rest)
  let ?v = "set_coords_x
              (jsub (jadd (jadd (jadd (x tb) m) (jmul s (Fin (of_nat idx)))) (jdiv s (Fin 2)))
                    (jdiv (w (t_coords (ls ! i))) (Fin 2)))
              (ls ! i)"
  have step: "distributeH tb m s (i # rest) idx ls = distributeH tb m s rest (Suc idx) (ls[i := ?v])"
    by (simp add: Let_def)
  show ?case
  proof (cases k)
    case 0
    from Cons.prems have "i \<notin> set rest" and "i < length ls" by simp_all
    then show ?thesis using 0 by (simp add: step distributeH_frame del: distributeH.simps)
  next
    case (Suc k')
    from Cons.prems Suc have d: "distinct rest" and k': "k' < length rest"
      and b: "\<forall>j\<in>set rest. j < length (ls[i := ?v])" and ne: "rest ! k' \<noteq> i"
      by auto
    from Cons.IH [OF d k' b, of "Suc idx"] ne Suc show ?thesis
      by (simp add: step del: distributeH.simps)
  qed
qed

lemma gridCandidates_mapped:
  "gridCandidates ovs (map (RemapperInstance_mapLayer sb tb ovs st d) ls)
     = filter (\<lambda>i. RemapperInstance_getOverride ovs (l_id (ls ! i)) = None) [0..<length ls]"
proof -
  have "isGridCandidate ovs (RemapperInstance_mapLayer sb tb ovs st d l)
          = (RemapperInstance_getOverride ovs (l_id l) = None)" for l
    by (cases l) (auto simp: isGridCandidate_def Let_def opt_field_def split: option.splits)
  then show ?thesis
    by (auto simp: gridCandidates_def intro!: filter_cong)
qed

lemma sweep_step_other: "j \<noteq> c \<Longrightarrow> sweep_step fb st p c ls ! j = ls ! j"
  by (simp add: sweep_step_def Let_def split: option.splits)

lemma sweep_step_length [simp]: "length (sweep_step fb st p c ls) = length ls"
  by (simp add: sweep_step_def Let_def split: option.splits)

lemma sweep_step_locked:
  "getOverride (t_id (ls ! j)) fb st \<noteq> None \<Longrightarrow> sweep_step fb st p c ls ! j = ls ! j"
  by (cases "j = c") (auto simp: sweep_step_def Let_def split: option.splits)

lemma sweep_locked:
  "getOverride (t_id (ls ! j)) fb st \<noteq> None \<Longrightarrow> sweep fb st fi i ls ! j = ls ! j"
proof (induction fb st fi i ls rule: sweep.induct)
  case (1 fb st fi i ls)
  show ?case
  proof (cases "i < length fi")
    case True
    let ?ls' = "sweep_step fb st (fi ! (i - 1)) (fi ! i) ls"
    from "1.prems" have same: "?ls' ! j = ls ! j" by (rule sweep_step_locked)
    with "1.prems" have "getOverride (t_id (?ls' ! j)) fb st \<noteq> None" by simp
    from "1.IH" [OF True this] same True show ?thesis
      by (subst sweep.simps) simp
  next
    case False
    then show ?thesis by (subst sweep.simps) simp
  qed
qed

lemma collisionSolver_locked:
  "getOverride (t_id (ls ! j)) fb st \<noteq> None \<Longrightarrow> RemapperInstanceRow_collisionSolver fb st ls ! j = ls ! j"
  by (simp add: RemapperInstanceRow_collisionSolver_def sweep_locked)

section \<open>Flow layout: the collision sweep\<close>

text \<open>
  On finite coordinates the comparator of the sort is a total preorder and the
  insertion sort of the model is the stable sort by \<open>x\<close>.
\<close>

lemma finite_num_the_rat: "finite_num v \<Longrightarrow> v = Fin (the_rat v)"
  by (cases v) simp_all

lemma set_insert_by_x [simp]: "set (insert_by_x ls a bs) = insert a (set bs)"
  by (induction bs) auto

lemma distinct_insert_by_x [simp]: "distinct (insert_by_x ls a bs) = (a \<notin> set bs \<and> distinct bs)"
  by (induction bs) auto

lemma set_sort_by_x [simp]: "set (sort_by_x ls idxs) = set idxs"
  unfolding sort_by_x_def by (induction idxs) simp_all

lemma distinct_sort_by_x [simp]: "distinct (sort_by_x ls idxs) = distinct idxs"
proof (induction idxs)
  case Nil
  show ?case by (simp add: sort_by_x_def)
next
  case (Cons a idxs)
  have "sort_by_x ls (a # idxs) = insert_by_x ls a (sort_by_x ls idxs)"
    by (simp add: sort_by_x_def)
  with Cons show ?case by simp
qed

lemma flowItems_distinct: "distinct (flowItems fb st ls)"
  by (simp add: flowItems_def)

lemma flowItems_bound: "j \<in> set (flowItems fb st ls) \<Longrightarrow> j < length ls"
  by (simp add: flowItems_def)

lemma insert_by_x_finite:
  assumes "\<forall>i\<in>set (a # bs). finite_num (x (t_coords (ls ! i)))"
  shows "insert_by_x ls a bs = insort_key (\<lambda>i. the_rat (x (t_coords (ls ! i)))) a bs"
  using assms
proof (induction bs)
  case Nil
  then show ?case by simp
next
  case (Cons b bs)
  from Cons.prems obtain pa pb where ab: "x (t_coords (ls ! a)) = Fin pa" "x (t_coords (ls ! b)) = Fin pb"
    by (metis finite_num_the_rat list.set_intros(1,2))
  have cmp: "jlt (Fin 0) (jsub (Fin pa) (Fin pb)) = (pb < pa)"
    by (simp add: jsub_def)
  from Cons.prems have "\<forall>i\<in>set (a # bs). finite_num (x (t_coords (ls ! i)))" by simp
  from Cons.IH [OF this] show ?case
    by (auto simp: cmp ab)
qed


lemma sort_by_x_finite:
  assumes "\<forall>i\<in>set idxs. finite_num (x (t_coords (ls ! i)))"
  shows "sort_by_x ls idxs = sort_key (\<lambda>i. the_rat (x (t_coords (ls ! i)))) idxs"
  using assms
proof (induction idxs)
  case Nil
  then show ?case by (simp add: sort_by_x_def)
next
  case (Cons a idxs)
  then have IH: "sort_by_x ls idxs = sort_key (\<lambda>i. the_rat (x (t_coords (ls ! i)))) idxs" by simp
  have "sort_by_x ls (a # idxs) = insert_by_x ls a (sort_by_x ls idxs)"
    by (simp add: sort_by_x_def)
  also have "\<dots> = insort_key (\<lambda>i. the_rat (x (t_coords (ls ! i)))) a (sort_by_x ls idxs)"
    using Cons.prems by (intro insert_by_x_finite) simp
  finally show ?case by (simp add: IH sort_key_def)
qed

lemma flowItems_ascending:
  assumes "\<forall>j\<in>set (flowItems fb st ls). finite_num (x (t_coords (ls ! j)))"
    and "0 < k" and "k < length (flowItems fb st ls)"
  shows "jle (x (t_coords (ls ! (flowItems fb st ls ! (k - 1))))) (x (t_coords (ls ! (flowItems fb st ls ! k))))"
proof -
  let ?f = "\<lambda>i. the_rat (x (t_coords (ls ! i)))"
  let ?idxs = "filter (\<lambda>i. isFlowItem fb st (ls ! i)) [0..<length ls]"
  have fin: "\<forall>i\<in>set ?idxs. finite_num (x (t_coords (ls ! i)))"
    using assms(1) by (simp add: flowItems_def)
  then have eq: "flowItems fb st ls = sort_key ?f ?idxs"
    unfolding flowItems_def by (rule sort_by_x_finite)
  then have "sorted (map ?f (flowItems fb st ls))" by simp
  with assms(2,3) have le: "?f (flowItems fb st ls ! (k - 1)) \<le> ?f (flowItems fb st ls ! k)"
    by (auto dest!: sorted_nth_mono [where i = "k - 1" and j = k])
  have "flowItems fb st ls ! (k - 1) \<in> set (flowItems fb st ls)"
      "flowItems fb st ls ! k \<in> set (flowItems fb st ls)"
    using assms(2,3) by simp_all
  with assms(1) have "finite_num (x (t_coords (ls ! (flowItems fb st ls ! (k - 1)))))"
      "finite_num (x (t_coords (ls ! (flowItems fb st ls ! k))))" by blast+
  then obtain a b where ab: "x (t_coords (ls ! (flowItems fb st ls ! (k - 1)))) = Fin a"
      "x (t_coords (ls ! (flowItems fb st ls ! k))) = Fin b"
    by (metis finite_num_the_rat)
  with le show ?thesis by (auto simp: ab)
qed

lemma sweep_length [simp]: "length (sweep fb st fi i ls) = length ls"
proof (induction fb st fi i ls rule: sweep.induct)
  case (1 fb st fi i ls)
  then show ?case by (subst sweep.simps) simp
qed

lemma nth_notin_drop:
  assumes "distinct fi" and "a < n" and "a < length fi"
  shows "fi ! a \<notin> set (drop n fi)"
proof
  assume "fi ! a \<in> set (drop n fi)"
  then obtain m where "m < length (drop n fi)" and "drop n fi ! m = fi ! a"
    by (auto simp: in_set_conv_nth)
  then have "n + m < length fi" and "fi ! (n + m) = fi ! a" by simp_all
  with assms have "n + m = a" by (simp add: nth_eq_iff_index_eq)
  with assms(2) show False by simp
qed

lemma sweep_frame:
  "j \<notin> set (drop i fi) \<Longrightarrow> sweep fb st fi i ls ! j = ls ! j"
proof (induction fb st fi i ls rule: sweep.induct)
  case (1 fb st fi i ls)
  show ?case
  proof (cases "i < length fi")
    case True
    then have "fi ! i \<in> set (drop i fi)"
      by (metis Cons_nth_drop_Suc list.set_intros(1))
    with "1.prems" have ne: "j \<noteq> fi ! i" by blast
    from "1.prems" have "j \<notin> set (drop (Suc i) fi)"
      by (metis in_set_dropD drop_Suc drop_drop plus_1_eq_Suc)
    from "1.IH" [OF True this] ne True show ?thesis
      by (subst sweep.simps) (simp add: sweep_step_other)
  next
    case False
    then show ?thesis by (subst sweep.simps) simp
  qed
qed

lemma shift_x_fields:
  "t_id (shift_x d l) = t_id l"
  "t_coords (shift_x d l) = (t_coords l)\<lparr>x := jadd (x (t_coords l)) d\<rparr>"
  "t_transform (shift_x d l) = (t_transform l)\<lparr>offsetX := jadd (offsetX (t_transform l)) d\<rparr>"
  by (cases l; simp add: shift_x_def)+

section \<open>Generative promotion\<close>

text \<open>
  Claim C5, as far as the code of both components keeps it. For every layer of the
  tree, in the payload of either component: a layer whose id is not
  \<open>strategy.replaceLayerId\<close> keeps its original type; the layer whose id is
  \<open>strategy.replaceLayerId\<close> gets the type \<open>generative\<close> under the method
  \<open>GENERATIVE\<close>, and carries the strategy's \<open>generativePrompt\<close> under the methods
  \<open>GENERATIVE\<close> and \<open>HYBRID\<close>; a layer whose id is not \<open>strategy.replaceLayerId\<close>
  carries no prompt when the method is neither \<open>GENERATIVE\<close> nor \<open>HYBRID\<close>. Moreover a
  type is the original one or \<open>generative\<close>, a prompt is none or the strategy's, and a
  layer whose type was changed and that carries a prompt is the layer named by
  \<open>replaceLayerId\<close> under \<open>GENERATIVE\<close> or \<open>HYBRID\<close>. These are all the cases of the
  claim in which the two components agree with it; the four others are the ones of the
  counterexample below.
\<close>

theorem generative_promotion:
  "(\<exists>q. RemapperInstanceRow_run nodeId (Some sd) (Some td) feedback now = Some q
       \<and> list_all2
           (\<lambda>l t.
              (opt_field (aiStrategy sd) replaceLayerId \<noteq> Some (l_id l) \<longrightarrow> t_type t = l_type l)
            \<and> (map_option s_method (aiStrategy sd) = Some ''GENERATIVE''
                 \<and> opt_field (aiStrategy sd) replaceLayerId = Some (l_id l)
               \<longrightarrow> t_type t = ''generative'')
            \<and> (method_requires_generation (aiStrategy sd)
                 \<and> opt_field (aiStrategy sd) replaceLayerId = Some (l_id l)
               \<longrightarrow> t_generativePrompt t = opt_field (aiStrategy sd) generativePrompt)
            \<and> (opt_field (aiStrategy sd) replaceLayerId \<noteq> Some (l_id l)
                 \<and> \<not> method_requires_generation (aiStrategy sd)
               \<longrightarrow> t_generativePrompt t = None)
            \<and> (t_type t = l_type l \<or> t_type t = ''generative'')
            \<and> (t_generativePrompt t = None
               \<or> t_generativePrompt t = opt_field (aiStrategy sd) generativePrompt)
            \<and> (t_type t \<noteq> l_type l \<and> t_generativePrompt t \<noteq> None
               \<longrightarrow> method_requires_generation (aiStrategy sd)
                   \<and> opt_field (aiStrategy sd) replaceLayerId = Some (l_id l)))
           (forest (layers sd)) (t_forest (p_layers q)))
   \<and> (\<exists>p. RemapperInstance_run nodeId (Some ctx) (Some tb) handle feedback now = Some p
       \<and> list_all2
           (\<lambda>l t.
              (opt_field (aiStrategy ctx) replaceLayerId \<noteq> Some (l_id l) \<longrightarrow> t_type t = l_type l)
            \<and> (map_option s_method (aiStrategy ctx) = Some ''GENERATIVE''
                 \<and> opt_field (aiStrategy ctx) replaceLayerId = Some (l_id l)
               \<longrightarrow> t_type t = ''generative'')
            \<and> (method_requires_generation (aiStrategy ctx)
                 \<and> opt_field (aiStrategy ctx) replaceLayerId = Some (l_id l)
               \<longrightarrow> t_generativePrompt t = opt_field (aiStrategy ctx) generativePrompt)
            \<and> (opt_field (aiStrategy ctx) replaceLayerId \<noteq> Some (l_id l)
                 \<and> \<not> method_requires_generation (aiStrategy ctx)
               \<longrightarrow> t_generativePrompt t = None)
            \<and> (t_type t = l_type l \<or> t_type t = ''generative'')
            \<and> (t_generativePrompt t = None
               \<or> t_generativePrompt t = opt_field (aiStrategy ctx) generativePrompt)
            \<and> (t_type t \<noteq> l_type l \<and> t_generativePrompt t \<noteq> None
               \<longrightarrow> method_requires_generation (aiStrategy ctx)
                   \<and> opt_field (aiStrategy ctx) replaceLayerId = Some (l_id l)))
           (forest (layers ctx)) (t_forest (p_layers p)))"
proof -
  have sel: "t_type t = t_type u \<and> t_generativePrompt t = t_generativePrompt u"
    if "t_meta t = t_meta u" for t u
    using that by (simp add: t_meta_def)
  have gen: "method_requires_generation st" if "map_option s_method st = Some ''GENERATIVE''" for st
    using that by (simp add: method_requires_generation_def)
  have hyb: "map_option s_method st = Some ''GENERATIVE'' \<or> map_option s_method st = Some ''HYBRID''"
    if "method_requires_generation st" for st
    using that by (simp only: method_requires_generation_def)
  let ?P = "\<lambda>st l t.
              (opt_field st replaceLayerId \<noteq> Some (l_id l) \<longrightarrow> t_type t = l_type l)
            \<and> (map_option s_method st = Some ''GENERATIVE''
                 \<and> opt_field st replaceLayerId = Some (l_id l)
               \<longrightarrow> t_type t = ''generative'')
            \<and> (method_requires_generation st
                 \<and> opt_field st replaceLayerId = Some (l_id l)
               \<longrightarrow> t_generativePrompt t = opt_field st generativePrompt)
            \<and> (opt_field st replaceLayerId \<noteq> Some (l_id l)
                 \<and> \<not> method_requires_generation st
               \<longrightarrow> t_generativePrompt t = None)
            \<and> (t_type t = l_type l \<or> t_type t = ''generative'')
            \<and> (t_generativePrompt t = None
               \<or> t_generativePrompt t = opt_field st generativePrompt)
            \<and> (t_type t \<noteq> l_type l \<and> t_generativePrompt t \<noteq> None
               \<longrightarrow> method_requires_generation st
                   \<and> opt_field st replaceLayerId = Some (l_id l))"
  have row: "?P st l t"
    if "t_meta t = t_meta (RemapperInstanceRow_transformLayer sb tb fb st l)" for sb tb fb st l t
  proof (cases "map_option s_method st = Some ''GENERATIVE''")
    case True
    with sel [OF that] gen [OF True] show ?thesis by (simp add: row_layer_promotion)
  next
    case False
    with sel [OF that] show ?thesis by (simp add: row_layer_promotion, blast?)
  qed
  have inst: "?P st l t"
    if "t_meta t = t_meta (RemapperInstance_mapLayer sb tb ovs st 0 l)" for sb tb ovs st l t
  proof (cases "method_requires_generation st")
    case True
    with sel [OF that] show ?thesis by (simp add: instance_layer_promotion)
  next
    case False
    with gen [of st] have "map_option s_method st \<noteq> Some ''GENERATIVE''" by blast
    with False sel [OF that] show ?thesis by (simp add: instance_layer_promotion)
  qed
  have R: "list_all2 (?P (aiStrategy sd)) (forest (layers sd))
          (t_forest (RemapperInstanceRow_collisionSolver feedback (aiStrategy sd)
             (map (RemapperInstanceRow_transformLayer (bounds (container sd)) (c_bounds td) feedback (aiStrategy sd))
                (layers sd))))"
    by (rule list_all2_from_meta [OF row_payload_meta]) (rule row)
  have I: "list_all2 (?P (aiStrategy ctx)) (forest (layers ctx))
          (t_forest (RemapperInstance_transformLayers (bounds (container ctx)) tb
             (RemapperInstance_overrides feedback (aiStrategy ctx)) (aiStrategy ctx) 0 (layers ctx)))"
    by (rule list_all2_from_meta [OF instance_payload_meta]) (rule inst)
  from row_run_layers [of nodeId sd td feedback now] obtain q
    where q: "RemapperInstanceRow_run nodeId (Some sd) (Some td) feedback now = Some q"
      and ql: "p_layers q =
          RemapperInstanceRow_collisionSolver feedback (aiStrategy sd)
            (map (RemapperInstanceRow_transformLayer (bounds (container sd)) (c_bounds td) feedback (aiStrategy sd))
               (layers sd))"
    by blast
  from instance_run_layers [of nodeId ctx tb handle feedback now] obtain p
    where p: "RemapperInstance_run nodeId (Some ctx) (Some tb) handle feedback now = Some p"
      and pl: "p_layers p =
          RemapperInstance_transformLayers (bounds (container ctx)) tb
            (RemapperInstance_overrides feedback (aiStrategy ctx)) (aiStrategy ctx) 0 (layers ctx)"
    by blast
  from R have "list_all2 (?P (aiStrategy sd)) (forest (layers sd)) (t_forest (p_layers q))"
    by (simp only: ql)
  with q have R': "\<exists>q. RemapperInstanceRow_run nodeId (Some sd) (Some td) feedback now = Some q
       \<and> list_all2 (?P (aiStrategy sd)) (forest (layers sd)) (t_forest (p_layers q))"
    by blast
  from I have "list_all2 (?P (aiStrategy ctx)) (forest (layers ctx)) (t_forest (p_layers p))"
    by (simp only: pl)
  with p have I': "\<exists>p. RemapperInstance_run nodeId (Some ctx) (Some tb) handle feedback now = Some p
       \<and> list_all2 (?P (aiStrategy ctx)) (forest (layers ctx)) (t_forest (p_layers p))"
    by blast
  from R' I' show ?thesis by (rule conjI)
qed

text \<open>
  Claim C5 as stated fails in both components. In \<open>RemapperInstanceRow\<close> the layer
  named by \<open>replaceLayerId\<close> keeps its type under the method \<open>HYBRID\<close>, and carries
  the prompt under the method \<open>GEOMETRIC\<close>. In \<open>RemapperInstance\<close> the layer named by
  \<open>replaceLayerId\<close> becomes \<open>generative\<close> under the method \<open>GEOMETRIC\<close>, and under
  the method \<open>GENERATIVE\<close> a layer that \<open>replaceLayerId\<close> does not name carries the
  prompt.
\<close>

theorem generative_promotion_counterexample:
  "map_option (\<lambda>p. map (\<lambda>t. (t_id t, t_type t, t_generativePrompt t)) (p_layers p))
     (RemapperInstanceRow_run ''n'' (Some (replace_source ''HYBRID'' ''L1'')) (Some ex_target) None (Fin 7))
     = Some [(''L1'', ''normal'', Some ''a red car'')]
   \<and> map_option (\<lambda>p. map (\<lambda>t. (t_id t, t_type t, t_generativePrompt t)) (p_layers p))
     (RemapperInstanceRow_run ''n'' (Some (replace_source ''GEOMETRIC'' ''L1'')) (Some ex_target) None (Fin 7))
     = Some [(''L1'', ''normal'', Some ''a red car'')]
   \<and> map_option (\<lambda>p. map (\<lambda>t. (t_id t, t_type t, t_generativePrompt t)) (p_layers p))
     (RemapperInstance_run ''n'' (Some (replace_source ''GEOMETRIC'' ''L1'')) (Some ex_bounds) None None (Fin 7))
     = Some [(''L1'', ''generative'', None)]
   \<and> map_option (\<lambda>p. map (\<lambda>t. (t_id t, t_type t, t_generativePrompt t)) (p_layers p))
     (RemapperInstance_run ''n'' (Some (replace_source ''GENERATIVE'' ''L2'')) (Some ex_bounds) None None (Fin 7))
     = Some [(''L1'', ''normal'', Some ''a red car'')]"
  by code_simp

text \<open>
  With the method \<open>GENERATIVE\<close> and \<open>replaceLayerId = L1\<close>, the one layer of the
  example becomes \<open>generative\<close> and carries the prompt (\<open>RemapperInstanceRow\<close>); with
  the method \<open>HYBRID\<close> it carries the prompt (\<open>RemapperInstance\<close>).
\<close>

theorem generative_promotion_witness:
  "(\<exists>q t. RemapperInstanceRow_run ''n'' (Some (replace_source ''GENERATIVE'' ''L1'')) (Some ex_target) None (Fin 7) = Some q
      \<and> t_forest (p_layers q) = [t] \<and> t_type t = ''generative'' \<and> t_generativePrompt t = Some ''a red car'')
   \<and> (\<exists>p t. RemapperInstance_run ''n'' (Some (replace_source ''HYBRID'' ''L1'')) (Some ex_bounds) None None (Fin 7) = Some p
      \<and> t_forest (p_layers p) = [t] \<and> t_generativePrompt t = Some ''a red car'')"
proof -
  have ins: "forest (layers (replace_source m ''L1'')) = [ex_layer]" for m
    by (simp add: forest_def replace_source_def ex_source_def ex_layer_def)
  have st: "map_option s_method (aiStrategy (replace_source m ''L1'')) = Some m"
       "opt_field (aiStrategy (replace_source m ''L1'')) replaceLayerId = Some (l_id ex_layer)"
       "opt_field (aiStrategy (replace_source m ''L1'')) generativePrompt = Some ''a red car''" for m
    by (simp_all add: replace_source_def replace_strategy_def opt_field_def ex_layer_def)
  have req: "method_requires_generation (aiStrategy (replace_source ''GENERATIVE'' ''L1''))"
       "method_requires_generation (aiStrategy (replace_source ''HYBRID'' ''L1''))"
    by (simp_all add: method_requires_generation_def st)
  from generative_promotion [THEN conjunct1, of "''n''" "replace_source ''GENERATIVE'' ''L1''" ex_target None "Fin 7"]
  have A: "\<exists>q t. RemapperInstanceRow_run ''n'' (Some (replace_source ''GENERATIVE'' ''L1'')) (Some ex_target) None (Fin 7) = Some q
      \<and> t_forest (p_layers q) = [t] \<and> t_type t = ''generative'' \<and> t_generativePrompt t = Some ''a red car''"
    unfolding ins st by (auto simp: list_all2_Cons1 req)
  from generative_promotion [THEN conjunct2, of "''n''" "replace_source ''HYBRID'' ''L1''" ex_bounds None None "Fin 7"]
  have B: "\<exists>p t. RemapperInstance_run ''n'' (Some (replace_source ''HYBRID'' ''L1'')) (Some ex_bounds) None None (Fin 7) = Some p
      \<and> t_forest (p_layers p) = [t] \<and> t_generativePrompt t = Some ''a red car''"
    unfolding ins st by (auto simp: list_all2_Cons1 req)
  from A B show ?thesis by (rule conjI)
qed

section \<open>Flow layout: the horizontal distribution\<close>

text \<open>
  Claim C6, as the code has it (\<open>RemapperInstance\<close>; the other component has no
  distribution pass). With a strategy whose \<open>layoutMode\<close> is
  \<open>DISTRIBUTE_HORIZONTAL\<close> or \<open>GRID\<close>, the candidates are all top-level layers for which
  the lookup of the component finds no override: the mapper has replaced the
  \<open>layoutRole\<close> of every layer by the override's, so the layer's own role does not
  count. The candidate number \<open>k\<close> (from 0, in the order of the list) gets
  \<open>coords.x = slotCX - coords.w / 2\<close> with
  \<open>slotCX = targetBounds.x + margin + step * k + step / 2\<close>,
  \<open>margin = targetBounds.w * 0.05\<close> and \<open>step = (targetBounds.w - margin * 2) / n\<close>, each
  operation as the code writes it; nothing else of the layer changes. The statement is
  the expression the code evaluates; it does not say that \<open>coords.x + coords.w / 2\<close>
  gives \<open>slotCX\<close> back, which in floating point holds only up to rounding.
\<close>

theorem distribute_horizontal_slot:
  assumes "layoutMode st = Some ''DISTRIBUTE_HORIZONTAL'' \<or> layoutMode st = Some ''GRID''"
    and "cands = filter (\<lambda>i. RemapperInstance_getOverride ovs (l_id (ls ! i)) = None) [0..<length ls]"
    and "k < length cands"
    and "margin = jmul (w tb) (Fin (5 / 100))"
    and "step = jdiv (jsub (w tb) (jmul margin (Fin 2))) (Fin (of_nat (length cands)))"
    and "slotCX = jadd (jadd (jadd (x tb) margin) (jmul step (Fin (of_nat k)))) (jdiv step (Fin 2))"
    and "mapped = RemapperInstance_mapLayer sb tb ovs (Some st) 0 (ls ! (cands ! k))"
    and "out = RemapperInstance_transformLayers sb tb ovs (Some st) 0 ls ! (cands ! k)"
  shows "t_coords out = (t_coords mapped)\<lparr>x := jsub slotCX (jdiv (w (t_coords mapped)) (Fin 2))\<rparr>
       \<and> t_transform out = t_transform mapped
       \<and> out = set_coords_x (jsub slotCX (jdiv (w (t_coords mapped)) (Fin 2))) mapped"
proof -
  let ?mapped = "map (RemapperInstance_mapLayer sb tb ovs (Some st) 0) ls"
  have c: "cands = gridCandidates ovs ?mapped"
    by (simp only: assms(2) gridCandidates_mapped)
  from assms(3) have pos: "0 < length (gridCandidates ovs ?mapped)"
    using c by auto
  have d: "distinct cands" and b: "\<forall>i\<in>set cands. i < length ?mapped"
    using c by (simp_all add: gridCandidates_distinct gridCandidates_set)
  from b assms(3) have lt: "cands ! k < length ls" by (metis length_map nth_mem)
  have "RemapperInstance_transformLayers sb tb ovs (Some st) 0 ls
          = distributeH tb margin step cands 0 ?mapped"
    using assms(1) pos
    by (auto simp: RemapperInstance_transformLayers_def RemapperInstance_physics_def Let_def
        c [symmetric] assms(4,5))
  then have out: "out = set_coords_x (jsub slotCX (jdiv (w (t_coords mapped)) (Fin 2))) mapped"
    using distributeH_nth [OF d assms(3) b, of tb margin step 0] lt
    by (simp add: assms(6,7,8))
  have fields: "t_coords (set_coords_x v l) = (t_coords l)\<lparr>x := v\<rparr>"
      "t_transform (set_coords_x v l) = t_transform l" for v l
    by (cases l; simp add: set_coords_x_def)+
  from out show ?thesis by (simp add: fields)
qed

text \<open>
  Claim C6 as stated fails when the target does not start at \<open>x = 0\<close>. In the target
  \<open>400 x 200\<close> at \<open>(10, 10)\<close> the two candidates \<open>A\<close> and \<open>B\<close> get the centres \<open>120\<close>
  and \<open>300\<close>; \<open>margin + step * i + step / 2\<close> is \<open>110\<close> and \<open>290\<close>. (The third
  layer is overridden and stays where the mapper put it. All values here are exact in
  double arithmetic.)
\<close>

theorem distribute_horizontal_slot_counterexample:
  "map_option (\<lambda>p. map (\<lambda>t. jadd (x (t_coords t)) (jdiv (w (t_coords t)) (Fin 2))) (p_layers p))
     (RemapperInstance_run ''n'' (Some grid_source) (Some ex_bounds) None None (Fin 7))
     = Some [Fin 120, Fin 300, Fin 115]
   \<and> [400 * (5 / 100) + (400 - 2 * (400 * (5 / 100))) / 2 * 0 + (400 - 2 * (400 * (5 / 100))) / 2 / 2,
       400 * (5 / 100) + (400 - 2 * (400 * (5 / 100))) / 2 * 1 + (400 - 2 * (400 * (5 / 100))) / 2 / 2]
     = [110, 290 :: rat]"
proof
  show "map_option (\<lambda>p. map (\<lambda>t. jadd (x (t_coords t)) (jdiv (w (t_coords t)) (Fin 2))) (p_layers p))
     (RemapperInstance_run ''n'' (Some grid_source) (Some ex_bounds) None None (Fin 7))
     = Some [Fin 120, Fin 300, Fin 115]"
    by code_simp
  show "[400 * (5 / 100) + (400 - 2 * (400 * (5 / 100))) / 2 * 0 + (400 - 2 * (400 * (5 / 100))) / 2 / 2,
       400 * (5 / 100) + (400 - 2 * (400 * (5 / 100))) / 2 * 1 + (400 - 2 * (400 * (5 / 100))) / 2 / 2]
     = [110, 290 :: rat]"
    by simp
qed

text \<open>
  In that example the candidates are the layers number 0 and 1. The second one has the
  role \<open>background\<close> of its own and is a candidate all the same: the mapper puts it at
  \<open>x = 180\<close> and the solver moves it to \<open>(10 + 20 + 180 * 1 + 90) - 60 / 2 = 270\<close>.
\<close>

theorem distribute_horizontal_slot_witness:
  "filter (\<lambda>i. RemapperInstance_getOverride [ov_L1] (l_id (three_layers ! i)) = None) [0..<length three_layers]
     = [0, 1]
   \<and> l_layoutRole (three_layers ! 1) = Some ''background''
   \<and> t_coords (RemapperInstance_mapLayer (bounds (container grid_source)) ex_bounds [ov_L1]
        (Some (ex_strategy\<lparr>layoutMode := Some ''DISTRIBUTE_HORIZONTAL''\<rparr>)) 0 (three_layers ! 1))
       = \<lparr>x = Fin 180, y = Fin 100, w = Fin 60, h = Fin 20\<rparr>
   \<and> t_coords (RemapperInstance_transformLayers (bounds (container grid_source)) ex_bounds [ov_L1]
        (Some (ex_strategy\<lparr>layoutMode := Some ''DISTRIBUTE_HORIZONTAL''\<rparr>)) 0 three_layers ! 1)
       = \<lparr>x = Fin 270, y = Fin 100, w = Fin 60, h = Fin 20\<rparr>"
proof -
  let ?st = "ex_strategy\<lparr>layoutMode := Some ''DISTRIBUTE_HORIZONTAL''\<rparr>"
  let ?sb = "bounds (container grid_source)"
  have cands: "filter (\<lambda>i. RemapperInstance_getOverride [ov_L1] (l_id (three_layers ! i)) = None)
                 [0..<length three_layers] = [0, 1]"
    by code_simp
  have role: "l_layoutRole (three_layers ! 1) = Some ''background''"
    by code_simp
  have mode: "layoutMode ?st = Some ''DISTRIBUTE_HORIZONTAL'' \<or> layoutMode ?st = Some ''GRID''"
    by simp
  have slot: "jadd (jadd (jadd (x ex_bounds) (jmul (w ex_bounds) (Fin (5 / 100))))
                (jmul (jdiv (jsub (w ex_bounds) (jmul (jmul (w ex_bounds) (Fin (5 / 100))) (Fin 2)))
                            (Fin (of_nat (length [0, 1 :: nat])))) (Fin (of_nat 1))))
                (jdiv (jdiv (jsub (w ex_bounds) (jmul (jmul (w ex_bounds) (Fin (5 / 100))) (Fin 2)))
                            (Fin (of_nat (length [0, 1 :: nat])))) (Fin 2)) = Fin 300"
    by (simp add: ex_bounds_def jsub_def)
  have mapped: "t_coords (RemapperInstance_mapLayer ?sb ex_bounds [ov_L1] (Some ?st) 0 (three_layers ! ([0, 1] ! 1)))
                  = \<lparr>x = Fin 180, y = Fin 100, w = Fin 60, h = Fin 20\<rparr>"
    by code_simp
  have idx: "[0, 1] ! 1 = (1::nat)" by simp
  from distribute_horizontal_slot [where cands = "[0, 1]" and k = 1, OF mode cands [symmetric] _ refl refl refl refl refl,
      of ?sb ex_bounds, THEN conjunct1]
  have "t_coords (RemapperInstance_transformLayers ?sb ex_bounds [ov_L1] (Some ?st) 0 three_layers ! 1)
          = \<lparr>x = Fin 270, y = Fin 100, w = Fin 60, h = Fin 20\<rparr>"
    unfolding slot mapped by (simp add: idx jsub_def)
  with cands role mapped show ?thesis by (simp add: idx)
qed

section \<open>Flow layout: layers with an override\<close>

text \<open>
  Claim C4 (a top-level layer with a resolved override is left by the solver as the
  mapper produced it) holds in \<open>RemapperInstanceRow\<close> (\<open>collisionSolver_locked\<close>), and
  in \<open>RemapperInstance\<close> for the layers for which the lookup of that component finds an
  override (\<open>transformLayers_locked\<close>). That lookup drops the strategy's overrides as
  soon as a feedback has a list of its own (claim C1). With the empty feedback and the
  distributing strategy of the example, layer \<open>L1\<close> has the strategy's override
  resolved for it under the per-layer rule, the component finds none, maps the layer
  to the centre of the target at \<open>x = 160\<close> and the grid solver moves it to \<open>x = 280\<close>.
\<close>

theorem RemapperInstance_moves_overridden_layer:
  "getOverride (l_id (layers grid_source ! 2)) (Some empty_feedback) (aiStrategy grid_source) = Some ov_L1
   \<and> RemapperInstance_getOverride (RemapperInstance_overrides (Some empty_feedback) (aiStrategy grid_source))
        (l_id (layers grid_source ! 2)) = None
   \<and> t_coords (RemapperInstance_mapLayer (bounds (container grid_source)) ex_bounds
        (RemapperInstance_overrides (Some empty_feedback) (aiStrategy grid_source)) (aiStrategy grid_source) 0
        (layers grid_source ! 2))
       = \<lparr>x = Fin 160, y = Fin 60, w = Fin 100, h = Fin 100\<rparr>
   \<and> map_option (\<lambda>p. t_coords (p_layers p ! 2))
        (RemapperInstance_run ''n'' (Some grid_source) (Some ex_bounds) None (Some empty_feedback) (Fin 7))
       = Some \<lparr>x = Fin 280, y = Fin 60, w = Fin 100, h = Fin 100\<rparr>"
  by code_simp

section \<open>Flow layout: neighbours in the collision sweep\<close>

lemma sweep_step_swept:
  assumes "c < length ls" and "p \<noteq> c"
  shows "swept fb st (ls ! p) (sweep_step fb st p c ls ! c) (ls ! c)"
  using assms by (simp add: swept_def sweep_step_def Let_def split: option.splits)

lemma sweep_swept:
  assumes "distinct fi" and "\<forall>j\<in>set fi. j < length ls"
    and "0 < i" and "i \<le> k" and "k < length fi"
  shows "swept fb st (sweep fb st fi i ls ! (fi ! (k - 1))) (sweep fb st fi i ls ! (fi ! k)) (ls ! (fi ! k))"
  using assms
proof (induction fb st fi i ls arbitrary: k rule: sweep.induct)
  case (1 fb st fi i ls)
  let ?p = "fi ! (i - 1)" and ?c = "fi ! i"
  let ?ls' = "sweep_step fb st ?p ?c ls"
  from "1.prems" have lt: "i < length fi" by simp
  with "1.prems" have mem: "?c \<in> set fi" by simp
  from "1.prems" lt have pc: "?p \<noteq> ?c" by (simp add: nth_eq_iff_index_eq)
  from mem "1.prems" have cb: "?c < length ls" by blast
  note sp = sweep_step_swept [OF cb pc, of fb st]
  have unf: "sweep fb st fi i ls = sweep fb st fi (Suc i) ?ls'"
    using lt by (subst sweep.simps) simp
  have keep_p: "?ls' ! ?p = ls ! ?p" using pc by (simp add: sweep_step_other)
  from "1.prems"(2) have bound': "\<forall>j\<in>set fi. j < length ?ls'" by simp
  show ?case
  proof (cases "k = i")
    case True
    have "sweep fb st fi (Suc i) ?ls' ! ?c = ?ls' ! ?c"
      using "1.prems"(1) lt by (intro sweep_frame nth_notin_drop) simp_all
    moreover have "sweep fb st fi (Suc i) ?ls' ! ?p = ?ls' ! ?p"
      using "1.prems"(1,3) lt by (intro sweep_frame nth_notin_drop) simp_all
    ultimately show ?thesis
      using sp True unfolding unf keep_p by simp
  next
    case False
    with "1.prems" have ik: "Suc i \<le> k" by simp
    from False "1.prems" lt have "fi ! k \<noteq> ?c" by (simp add: nth_eq_iff_index_eq)
    then have same: "?ls' ! (fi ! k) = ls ! (fi ! k)" by (simp add: sweep_step_other)
    from "1.IH" [OF lt "1.prems"(1) bound' _ ik "1.prems"(5)]
    show ?thesis unfolding unf same by simp
  qed
qed

lemma not_jlt_jle: "\<not> jlt (Fin a) b \<Longrightarrow> b \<noteq> NaN \<Longrightarrow> jle b (Fin a)"
  by (cases b) auto

text \<open>
  Claim C7, as the code has it (\<open>RemapperInstanceRow\<close>, with \<open>preventOverlap\<close> on),
  when the mapped \<open>x\<close> of the flow items are finite numbers. Let \<open>fi\<close> be the flow items
  sorted by their mapped \<open>x\<close>, \<open>out\<close> the list after the sweep, \<open>prev = fi[k-1]\<close> and
  \<open>next = fi[k]\<close> two neighbours, and \<open>bound = prev.coords.x + prev.coords.w + 10\<close> with
  \<open>prev\<close> as the sweep has left it. Then the mapped \<open>x\<close> of \<open>prev\<close> is at most that of
  \<open>next\<close>; a \<open>next\<close> locked by a resolved override is untouched; an unlocked \<open>next\<close>
  whose \<open>x\<close> is not below \<open>bound\<close> is untouched, and \<open>next.coords.x >= bound\<close> holds for
  it (when \<open>bound\<close> is a number); any other unlocked \<open>next\<close> is changed in exactly two
  fields, \<open>coords.x\<close> and \<open>transform.offsetX\<close>, to both of which
  \<open>diff = bound - next.coords.x\<close> is added. The statement does not say that
  \<open>next.coords.x + diff\<close> gives \<open>bound\<close>: in floating point it does so only up to
  rounding.
\<close>

theorem collision_sweep_adjacent:
  assumes "opt_field (opt_field strategy physicsRules) preventOverlap = Some True"
    and "\<forall>j\<in>set fi. finite_num (x (t_coords (ls ! j)))"
    and "fi = flowItems feedback strategy ls"
    and "out = RemapperInstanceRow_collisionSolver feedback strategy ls"
    and "0 < k" and "k < length fi"
    and "bound = jadd (jadd (x (t_coords (out ! (fi ! (k - 1))))) (w (t_coords (out ! (fi ! (k - 1))))))
                   (Fin 10)"
    and "diff = jsub bound (x (t_coords (ls ! (fi ! k))))"
  shows "jle (x (t_coords (ls ! (fi ! (k - 1))))) (x (t_coords (ls ! (fi ! k))))
       \<and> (getOverride (t_id (ls ! (fi ! k))) feedback strategy \<noteq> None \<longrightarrow>
            out ! (fi ! k) = ls ! (fi ! k))
       \<and> (getOverride (t_id (ls ! (fi ! k))) feedback strategy = None
            \<and> \<not> jlt (x (t_coords (ls ! (fi ! k)))) bound \<longrightarrow>
            out ! (fi ! k) = ls ! (fi ! k)
            \<and> (bound \<noteq> NaN \<longrightarrow> jle bound (x (t_coords (out ! (fi ! k))))))
       \<and> (getOverride (t_id (ls ! (fi ! k))) feedback strategy = None
            \<and> jlt (x (t_coords (ls ! (fi ! k)))) bound \<longrightarrow>
            out ! (fi ! k) = shift_x diff (ls ! (fi ! k))
            \<and> t_coords (out ! (fi ! k))
                = (t_coords (ls ! (fi ! k)))\<lparr>x := jadd (x (t_coords (ls ! (fi ! k)))) diff\<rparr>
            \<and> t_transform (out ! (fi ! k))
                = (t_transform (ls ! (fi ! k)))
                    \<lparr>offsetX := jadd (offsetX (t_transform (ls ! (fi ! k)))) diff\<rparr>)"
proof -
  have out: "out = sweep feedback strategy fi 1 ls"
    using assms(1,3,4) by (simp add: RemapperInstanceRow_collisionSolver_def)
  have d: "distinct fi" and b: "\<forall>j\<in>set fi. j < length ls"
    using assms(3) by (simp_all add: flowItems_distinct flowItems_bound)
  from assms(5) have k1: "1 \<le> k" by simp
  have sw: "swept feedback strategy (out ! (fi ! (k - 1))) (out ! (fi ! k)) (ls ! (fi ! k))"
    unfolding out by (rule sweep_swept [OF d b _ k1 assms(6)]) simp
  have asc: "jle (x (t_coords (ls ! (fi ! (k - 1))))) (x (t_coords (ls ! (fi ! k))))"
    using assms(2,5,6) unfolding assms(3) by (intro flowItems_ascending) simp_all
  from assms(2,6) obtain a where a: "x (t_coords (ls ! (fi ! k))) = Fin a"
    by (metis finite_num_the_rat nth_mem)
  from sw asc show ?thesis
    unfolding swept_def Let_def assms(7) [symmetric] assms(8) [symmetric]
    by (auto simp: shift_x_fields a not_jlt_jle)
qed

text \<open>
  In the example the sorted flow items are \<open>L1\<close> (locked, at \<open>-20\<close>), \<open>A\<close> and \<open>B\<close>.
  For the pair \<open>A\<close>, \<open>B\<close>: \<open>A\<close> was moved to \<open>90\<close> and is \<open>30\<close> wide, so \<open>bound = 130\<close>;
  \<open>B\<close>, mapped to \<open>x = 20\<close>, gets \<open>diff = 110\<close> added to \<open>coords.x\<close> and to
  \<open>transform.offsetX\<close>. All values are exact in double arithmetic.
\<close>

theorem collision_sweep_adjacent_witness:
  "flowItems None (Some sweep_strategy)
     (map (RemapperInstanceRow_transformLayer (bounds (container sweep_source)) (c_bounds unit_target)
            None (Some sweep_strategy)) three_layers) = [2, 0, 1]
   \<and> map (\<lambda>t. x (t_coords t))
        (map (RemapperInstanceRow_transformLayer (bounds (container sweep_source)) (c_bounds unit_target)
            None (Some sweep_strategy)) three_layers) = [Fin 0, Fin 20, Fin (- 20)]
   \<and> t_coords (RemapperInstanceRow_collisionSolver None (Some sweep_strategy)
           (map (RemapperInstanceRow_transformLayer (bounds (container sweep_source)) (c_bounds unit_target)
                  None (Some sweep_strategy)) three_layers) ! 1)
       = \<lparr>x = Fin 130, y = Fin 0, w = Fin 30, h = Fin 10\<rparr>
   \<and> offsetX (t_transform (RemapperInstanceRow_collisionSolver None (Some sweep_strategy)
           (map (RemapperInstanceRow_transformLayer (bounds (container sweep_source)) (c_bounds unit_target)
                  None (Some sweep_strategy)) three_layers) ! 1))
       = Fin 130"
proof -
  let ?ls = "map (RemapperInstanceRow_transformLayer (bounds (container sweep_source)) (c_bounds unit_target)
                  None (Some sweep_strategy)) three_layers"
  let ?out = "RemapperInstanceRow_collisionSolver None (Some sweep_strategy) ?ls"
  have on: "opt_field (opt_field (Some sweep_strategy) physicsRules) preventOverlap = Some True"
    by code_simp
  have fin: "\<forall>j\<in>set [2, 0, 1]. finite_num (x (t_coords (?ls ! j)))"
    by code_simp
  have fi: "flowItems None (Some sweep_strategy) ?ls = [2, 0, 1]"
    by code_simp
  have xs: "map (\<lambda>t. x (t_coords t)) ?ls = [Fin 0, Fin 20, Fin (- 20)]"
    by code_simp
  have free: "getOverride (t_id (?ls ! ([2, 0, 1] ! 2))) None (Some sweep_strategy) = None"
    by code_simp
  have prev: "x (t_coords (?out ! ([2, 0, 1] ! (2 - 1)))) = Fin 90"
      "w (t_coords (?out ! ([2, 0, 1] ! (2 - 1)))) = Fin 30"
    by code_simp+
  have orig: "t_coords (?ls ! ([2, 0, 1] ! 2)) = \<lparr>x = Fin 20, y = Fin 0, w = Fin 30, h = Fin 10\<rparr>"
      "offsetX (t_transform (?ls ! ([2, 0, 1] ! 2))) = Fin 20"
    by code_simp+
  have idx: "[2, 0, 1] ! 2 = (1::nat)" by simp
  have k: "0 < (2::nat)" "2 < length [2, 0, 1 :: nat]" by simp_all
  note inst = collision_sweep_adjacent [where k = 2 and fi = "[2, 0, 1]" and out = ?out,
      OF on fin fi [symmetric] refl k refl refl, THEN conjunct2, THEN conjunct2, THEN conjunct2]
  have pre: "getOverride (t_id (?ls ! ([2, 0, 1] ! 2))) None (Some sweep_strategy) = None
      \<and> jlt (x (t_coords (?ls ! ([2, 0, 1] ! 2))))
            (jadd (jadd (x (t_coords (?out ! ([2, 0, 1] ! (2 - 1)))))
                        (w (t_coords (?out ! ([2, 0, 1] ! (2 - 1)))))) (Fin 10))"
    unfolding prev orig free by simp
  from inst [THEN mp, OF pre, THEN conjunct2]
  have "t_coords (?out ! ([2, 0, 1] ! 2)) = \<lparr>x = Fin 130, y = Fin 0, w = Fin 30, h = Fin 10\<rparr>
      \<and> offsetX (t_transform (?out ! ([2, 0, 1] ! 2))) = Fin 130"
    unfolding prev orig by (simp add: jsub_def)
  then show ?thesis using fi xs unfolding idx by simp
qed

text \<open>
  Claim C7 as stated fails when mapped coordinates are not finite. With a source
  container of width zero every mapped layer has \<open>x = NaN\<close> and an infinite width;
  \<open>curr.coords.x < prevEnd + padding\<close> is then false, nothing is shifted, and for the
  layers \<open>A\<close> and \<open>B\<close>, which no override locks, \<open>next.x >= prev.x + prev.w + 10\<close>
  is false whatever their neighbour in the sorted list is.
\<close>

theorem collision_sweep_counterexample:
  "flowItems None (aiStrategy flat_sweep_source)
     (map (RemapperInstanceRow_transformLayer (bounds (container flat_sweep_source)) (c_bounds unit_target)
            None (aiStrategy flat_sweep_source)) (layers flat_sweep_source)) = [0, 1, 2]
   \<and> opt_field (opt_field (aiStrategy flat_sweep_source) physicsRules) preventOverlap = Some True
   \<and> map_option (\<lambda>p. map (\<lambda>t. (getOverride (t_id t) None (aiStrategy flat_sweep_source) = None,
                                  x (t_coords t), w (t_coords t))) (p_layers p))
        (RemapperInstanceRow_run ''n'' (Some flat_sweep_source) (Some unit_target) None (Fin 7))
       = Some [(True, NaN, PosInf), (True, NaN, PosInf), (False, NaN, PosInf)]
   \<and> \<not> jle (jadd (jadd NaN PosInf) (Fin 10)) NaN"
  by code_simp

end
